theory Spec2Isabelle
  imports Main "HOL-Library.AList"
begin

section \<open>Data model of the sync layer (src/data-sync.js)\<close>

text \<open>
  The four values the field \<open>syncStatus\<close> takes: the strings \<open>'synced'\<close>,
  \<open>'syncing'\<close>, \<open>'offline'\<close> and \<open>'error'\<close>.
\<close>

datatype syncstatus = Synced | Syncing | Offline | Error

text \<open>
  A JavaScript number: an IEEE double (with \<open>NaN\<close>, the infinities and the
  negative zero). Nothing modelled here computes with one.
\<close>

typedecl number

text \<open>
  The values that are passed, stored and sent: \<open>undefined\<close> and the values
  JSON can carry. An object is a plain object, given by the list of its own
  properties in the order they were created (the order in which the engine
  enumerates them is a function of that list); it is read with \<open>map_of\<close>.
  Objects of other kinds (functions, dates, instances of classes) are left
  out, and a value is taken not to change after it has been passed.
\<close>

datatype jsvalue =
    JUndefined
  | JNull
  | JBool bool
  | JNum number
  | JStr string
  | JArr "jsvalue list"
  | JObj "(string \<times> jsvalue) list"

text \<open>
  What the browser does and the source does not say. \<open>toISOString t\<close> is the
  text of \<open>new Date().toISOString()\<close> at time \<open>t\<close>. \<open>JSON_parse\<close> is
  \<open>JSON.parse\<close> on a text (\<open>None\<close>: it raises a \<open>SyntaxError\<close>) and
  \<open>JSON_stringify\<close> is \<open>JSON.stringify\<close> (\<open>None\<close>: it raises); no round
  trip between the two is assumed. \<open>array_assign elems name v\<close> is the
  assignment \<open>a[name] = v\<close> for an array with the given elements: the
  elements afterwards (the name may be an index, \<open>length\<close>, or neither),
  \<open>None\<close> when it raises. \<open>storage_accepts store key text\<close> says whether
  \<open>localStorage.setItem(key, text)\<close> succeeds on the given content; otherwise
  it raises (quota exceeded, storage disabled). Reading and removing are taken
  to succeed.
\<close>

record runtime =
  toISOString :: "nat \<Rightarrow> string"
  JSON_parse :: "string \<Rightarrow> jsvalue option"
  JSON_stringify :: "jsvalue \<Rightarrow> string option"
  array_assign :: "jsvalue list \<Rightarrow> string \<Rightarrow> jsvalue \<Rightarrow> jsvalue list option"
  storage_accepts :: "(string \<times> string) list \<Rightarrow> string \<Rightarrow> string \<Rightarrow> bool"

text \<open>
  A registered status listener. \<open>Callback i throws\<close> is a function, named
  \<open>i\<close>, whose call with a status and a message raises an exception exactly
  when \<open>throws status message\<close>; \<open>NotCallable i\<close> is a registered value
  that is not a function.
\<close>

datatype listener =
    Callback nat "syncstatus \<Rightarrow> string \<Rightarrow> bool"
  | NotCallable nat

text \<open>How a call ends: it returns a value, raises, or is suspended at an \<open>await\<close>.\<close>

datatype 'a completion = Return 'a | Throw | Pending

text \<open>The variables captured by the timeout callback of \<open>saveFormData\<close>.\<close>

record pending_write =
  w_collection :: string
  w_docId :: string
  w_fieldName :: string
  w_value :: jsvalue

text \<open>
  Who issued a call of \<open>FirebaseCore.updateDocument\<close>: the flush of a write
  key, or the reconciliation of a \<open>localStorage\<close> key. The origin is kept in the
  log only to tell the calls apart; it is not sent.
\<close>

datatype origin = Flush string | Reconcile string

type_synonym gateway_call = "origin \<times> string \<times> (string \<times> jsvalue) list"

text \<open>
  The fields of a \<open>DataSync\<close> object and the parts of the browser it acts on:
  \<open>localStorage\<close> (keys and the texts under them), the table of scheduled
  timeouts (identifier, due time, callback), the callbacks and reconciliation
  passes suspended at an \<open>await\<close>, and two logs: the calls of
  \<open>FirebaseCore.updateDocument\<close> and the listener invocations, both in the
  order they were made. The fields \<open>db\<close>, \<open>auth\<close>, \<open>unsubscribers\<close> and
  \<open>initialized\<close> belong to the Firebase set-up and the snapshot
  subscriptions and are left out; a change of identity shows as the value of
  \<open>userId\<close>.
\<close>

record state =
  userId :: "string option"
  syncStatus :: syncstatus
  syncListeners :: "listener list"
  writeDebounceMs :: nat
  pendingWrites :: "string \<rightharpoonup> nat"
  localStorage :: "(string \<times> string) list"
  timers :: "(nat \<times> nat \<times> pending_write) list"
  nextTimer :: nat
  flushing :: "(nat \<times> pending_write) list"
  reconciling :: "(nat \<times> string list) list"
  nextPass :: nat
  gatewayLog :: "gateway_call list"
  listenerLog :: "(nat \<times> syncstatus \<times> string) list"

section \<open>Construction and listeners\<close>

text \<open>
  The constructor (lines 8 to 23). \<open>_init\<close> contains no \<open>await\<close>; it only
  registers callbacks with Firebase and the window, which run in later turns.
\<close>

definition constructor :: state where
  "constructor =
     \<lparr> userId = None, syncStatus = Synced, syncListeners = [],
       writeDebounceMs = 500, pendingWrites = Map.empty, localStorage = [],
       timers = [], nextTimer = 0, flushing = [], reconciling = [], nextPass = 0,
       gatewayLog = [], listenerLog = [] \<rparr>"

definition addSyncListener :: "listener \<Rightarrow> state \<Rightarrow> state" where
  "addSyncListener callback s = s\<lparr>syncListeners := syncListeners s @ [callback]\<rparr>"

text \<open>
  The \<open>forEach\<close> of \<open>_notifySyncListeners\<close> (lines 518 to 522): the
  invocations made, in order, and whether an exception left the loop. The loop
  has no handler, so the first exception ends it.
\<close>

fun call_listeners ::
  "listener list \<Rightarrow> syncstatus \<Rightarrow> string \<Rightarrow> (nat \<times> syncstatus \<times> string) list \<times> bool" where
  "call_listeners [] status message = ([], False)"
| "call_listeners (NotCallable i # ls) status message = call_listeners ls status message"
| "call_listeners (Callback i throws # ls) status message =
     (if throws status message then ([(i, status, message)], True)
      else (case call_listeners ls status message of
              (calls, threw) \<Rightarrow> ((i, status, message) # calls, threw)))"

text \<open>
  \<open>_notifySyncListeners\<close> (an Isabelle name cannot start with an underscore).
  The status is stored before any listener runs. \<open>_updateSyncStatusUI\<close> writes
  to the page only and is left out.
\<close>

definition notifySyncListeners :: "syncstatus \<Rightarrow> string \<Rightarrow> state \<Rightarrow> unit completion \<times> state" where
  "notifySyncListeners status message s =
     (case call_listeners (syncListeners s) status message of
        (calls, threw) \<Rightarrow>
          (if threw then Throw else Return (),
           s\<lparr>syncStatus := status, listenerLog := listenerLog s @ calls\<rparr>))"

text \<open>Whether a listener is a function that raises on the given notification.\<close>

fun raises :: "listener \<Rightarrow> syncstatus \<Rightarrow> string \<Rightarrow> bool" where
  "raises (Callback i throws) status message = throws status message"
| "raises (NotCallable i) status message = False"

fun callable :: "listener \<Rightarrow> bool" where
  "callable (Callback i throws) = True"
| "callable (NotCallable i) = False"

fun listener_id :: "listener \<Rightarrow> nat" where
  "listener_id (Callback i throws) = i"
| "listener_id (NotCallable i) = i"

section \<open>The local fallback store\<close>

definition getItem :: "string \<Rightarrow> state \<Rightarrow> string option" where
  "getItem key s = map_of (localStorage s) key"

text \<open>\<open>localStorage.setItem\<close>: the write is made, or refused with an exception.\<close>

definition setItem :: "runtime \<Rightarrow> string \<Rightarrow> string \<Rightarrow> state \<Rightarrow> unit completion \<times> state" where
  "setItem rt key text s =
     (if storage_accepts rt (localStorage s) key text
      then (Return (), s\<lparr>localStorage := AList.update key text (localStorage s)\<rparr>)
      else (Throw, s))"

definition removeItem :: "string \<Rightarrow> state \<Rightarrow> state" where
  "removeItem key s = s\<lparr>localStorage := AList.delete key (localStorage s)\<rparr>"

text \<open>
  \<open>JSON.parse\<close> applied to the result of \<open>getItem\<close>. For a missing key the
  argument is \<open>null\<close>, which is converted to the text \<open>null\<close>.
\<close>

definition parse_item :: "runtime \<Rightarrow> string option \<Rightarrow> jsvalue option" where
  "parse_item rt existing =
     JSON_parse rt (case existing of None \<Rightarrow> ''null'' | Some text \<Rightarrow> text)"

text \<open>The test \<open>existing ? ... : ...\<close>: \<open>null\<close> and the empty text are falsy.\<close>

definition truthy :: "string option \<Rightarrow> bool" where
  "truthy existing = (existing \<noteq> None \<and> existing \<noteq> Some [])"

text \<open>
  The assignment \<open>o[name] = v\<close> for a plain object. The name \<open>__proto__\<close>
  is an own property only when \<open>JSON.parse\<close> has made it one; otherwise the
  assignment runs the prototype setter and creates no property (the prototype
  it may install is \<open>null\<close>, an array or a plain object, which changes
  neither the later assignment of the timestamp nor what is serialised).
\<close>

definition set_property ::
  "string \<Rightarrow> jsvalue \<Rightarrow> (string \<times> jsvalue) list \<Rightarrow> (string \<times> jsvalue) list" where
  "set_property name v props =
     (if name = ''__proto__'' \<and> map_of props name = None then props
      else AList.update name v props)"

text \<open>The statement \<open>localStorage.setItem(key, JSON.stringify(data))\<close>.\<close>

definition store_json :: "runtime \<Rightarrow> string \<Rightarrow> jsvalue \<Rightarrow> state \<Rightarrow> unit completion \<times> state" where
  "store_json rt key data s =
     (case JSON_stringify rt data of
        None \<Rightarrow> (Throw, s)
      | Some text \<Rightarrow> setItem rt key text s)"

text \<open>
  \<open>_saveToLocalStorage\<close> (lines 346 to 353). The second argument is the text
  that \<open>new Date().toISOString()\<close> returns. The method is not guarded: a text
  that does not parse raises in \<open>JSON.parse\<close>; a parsed value that is
  neither an object nor an array raises at the assignment
  \<open>data[fieldName] = value\<close> (a class body is strict code); for an array the
  runtime says what the assignment does, and the timestamp becomes a property
  that is not serialised. For an object the timestamp is assigned after the
  field.
\<close>

definition saveToLocalStorage ::
  "runtime \<Rightarrow> string \<Rightarrow> string \<Rightarrow> string \<Rightarrow> string \<Rightarrow> jsvalue \<Rightarrow> state
     \<Rightarrow> unit completion \<times> state" where
  "saveToLocalStorage rt stamp collection docId fieldName val s =
     (let key = collection @ ''_'' @ docId;
          existing = getItem key s
      in case (if truthy existing then parse_item rt existing else Some (JObj [])) of
           Some (JObj props) \<Rightarrow>
             store_json rt key
               (JObj (set_property ''_lastUpdated'' (JStr stamp)
                        (set_property fieldName val props))) s
         | Some (JArr elems) \<Rightarrow>
             (case array_assign rt elems fieldName val of
                Some elems' \<Rightarrow> store_json rt key (JArr elems') s
              | None \<Rightarrow> (Throw, s))
         | _ \<Rightarrow> (Throw, s))"

section \<open>Debounced writes\<close>

text \<open>The test \<open>!this.userId\<close> fails for \<open>null\<close> and for the empty string.\<close>

definition authenticated :: "state \<Rightarrow> bool" where
  "authenticated s = (case userId s of None \<Rightarrow> False | Some u \<Rightarrow> u \<noteq> [])"

text \<open>The template \<open>users/${this.userId}\<close>.\<close>

definition user_path :: "state \<Rightarrow> string" where
  "user_path s = ''users/'' @ (case userId s of None \<Rightarrow> ''null'' | Some u \<Rightarrow> u)"

text \<open>The key of \<open>pendingWrites\<close>: \<open>${collection}.${docId}.${fieldName}\<close>.\<close>

definition write_key :: "pending_write \<Rightarrow> string" where
  "write_key w = w_collection w @ ''.'' @ w_docId w @ ''.'' @ w_fieldName w"

definition clearTimeout :: "nat \<Rightarrow> state \<Rightarrow> state" where
  "clearTimeout i s = s\<lparr>timers := filter (\<lambda>x. fst x \<noteq> i) (timers s)\<rparr>"

definition setTimeout :: "pending_write \<Rightarrow> nat \<Rightarrow> state \<Rightarrow> nat \<times> state" where
  "setTimeout w due s =
     (nextTimer s,
      s\<lparr>timers := timers s @ [(nextTimer s, due, w)], nextTimer := Suc (nextTimer s)\<rparr>)"

text \<open>
  \<open>saveFormData\<close> (lines 222 to 257), called at time \<open>t\<close> (milliseconds).
  The body has no \<open>await\<close> outside the timeout callback, so the call runs to
  its end at once.
\<close>

definition saveFormData ::
  "runtime \<Rightarrow> nat \<Rightarrow> string \<Rightarrow> string \<Rightarrow> string \<Rightarrow> jsvalue \<Rightarrow> state
     \<Rightarrow> unit completion \<times> state" where
  "saveFormData rt t collection docId fieldName val s =
     (if \<not> authenticated s
      then saveToLocalStorage rt (toISOString rt t) collection docId fieldName val s
      else
        (case notifySyncListeners Syncing ''Saving...'' s of
           (Return u, s1) \<Rightarrow>
             (let w = \<lparr>w_collection = collection, w_docId = docId,
                        w_fieldName = fieldName, w_value = val\<rparr>;
                  key = write_key w;
                  s2 = (case pendingWrites s1 key of
                          Some i \<Rightarrow> clearTimeout i s1
                        | None \<Rightarrow> s1)
              in case setTimeout w (t + writeDebounceMs s2) s2 of
                   (timeoutId, s3) \<Rightarrow>
                     (Return (), s3\<lparr>pendingWrites := (pendingWrites s3)(key \<mapsto> timeoutId)\<rparr>))
         | (r, s1) \<Rightarrow> (r, s1)))"

text \<open>
  The timeout callback up to its \<open>await\<close>: the payload is built from an
  empty object (the field, then the timestamp) and
  \<open>FirebaseCore.updateDocument\<close> is called with it.
\<close>

definition flush_payload :: "string \<Rightarrow> pending_write \<Rightarrow> (string \<times> jsvalue) list" where
  "flush_payload stamp w =
     set_property ''lastUpdated'' (JStr stamp) (set_property (w_fieldName w) (w_value w) [])"

fun run_timer :: "runtime \<Rightarrow> nat \<times> nat \<times> pending_write \<Rightarrow> state \<Rightarrow> state" where
  "run_timer rt (i, due, w) s =
     s\<lparr>timers := filter (\<lambda>x. fst x \<noteq> i) (timers s),
       gatewayLog := gatewayLog s @
         [(Flush (write_key w), user_path s, flush_payload (toISOString rt due) w)],
       flushing := flushing s @ [(i, w)]\<rparr>"

text \<open>
  Time passes up to \<open>t\<close>: every timeout that is due runs, at its due time,
  earlier ones first and equal ones in the order they were scheduled.
\<close>

definition advance :: "runtime \<Rightarrow> nat \<Rightarrow> state \<Rightarrow> state" where
  "advance rt t s =
     fold (run_timer rt)
       (sort_key (\<lambda>x. fst (snd x)) (filter (\<lambda>x. fst (snd x) \<le> t) (timers s))) s"

text \<open>The \<open>catch\<close> block of the callback and the statement after it.\<close>

definition flush_failed ::
  "runtime \<Rightarrow> string \<Rightarrow> pending_write \<Rightarrow> state \<Rightarrow> unit completion \<times> state" where
  "flush_failed rt stamp w s =
     (case notifySyncListeners Error ''Sync failed'' s of
        (Return u, s1) \<Rightarrow>
          (case saveToLocalStorage rt stamp (w_collection w) (w_docId w) (w_fieldName w)
                  (w_value w) s1 of
             (Return u', s2) \<Rightarrow>
               (Return (), s2\<lparr>pendingWrites := (pendingWrites s2)(write_key w := None)\<rparr>)
           | (r, s2) \<Rightarrow> (r, s2))
      | (r, s1) \<Rightarrow> (r, s1))"

text \<open>
  The callback after its \<open>await\<close>. The notification of success is inside
  the \<open>try\<close> block, so an exception of a listener there leads to the
  \<open>catch\<close> block as a failed write does.
\<close>

definition flush_end ::
  "runtime \<Rightarrow> string \<Rightarrow> bool \<Rightarrow> pending_write \<Rightarrow> state \<Rightarrow> unit completion \<times> state" where
  "flush_end rt stamp ok w s =
     (if ok then
        (case notifySyncListeners Synced ''All changes saved'' s of
           (Return u, s1) \<Rightarrow>
             (Return (), s1\<lparr>pendingWrites := (pendingWrites s1)(write_key w := None)\<rparr>)
         | (r, s1) \<Rightarrow> flush_failed rt stamp w s1)
      else flush_failed rt stamp w s)"

text \<open>
  The remote write of the suspended callback \<open>i\<close> settles at time \<open>t\<close>:
  it succeeded (\<open>ok\<close>) or was rejected. Nothing happens when no such
  callback is suspended.
\<close>

definition settle :: "runtime \<Rightarrow> nat \<Rightarrow> nat \<Rightarrow> bool \<Rightarrow> state \<Rightarrow> unit completion \<times> state" where
  "settle rt t i ok s =
     (case map_of (flushing s) i of
        Some w \<Rightarrow>
          flush_end rt (toISOString rt t) ok w (s\<lparr>flushing := AList.delete i (flushing s)\<rparr>)
      | None \<Rightarrow> (Pending, s))"

section \<open>Reconciliation\<close>

definition startsWith :: "string \<Rightarrow> string \<Rightarrow> bool" where
  "startsWith k p = (take (length p) k = p)"

definition is_local_key :: "string \<Rightarrow> bool" where
  "is_local_key k =
     (startsWith k ''forms_'' \<or> startsWith k ''documents_'' \<or> startsWith k ''profile_'' \<or>
      k = ''formData'' \<or> k = ''progressData'' \<or> k = ''settings'')"

text \<open>\<open>Object.keys(localStorage)\<close> is taken in the order of the store.\<close>

definition localKeys :: "state \<Rightarrow> string list" where
  "localKeys s = filter is_local_key (map fst (localStorage s))"

text \<open>
  The chain of tests on the key: the fields sent for a key, \<open>None\<close> for a key
  that no branch matches, for which nothing is sent.
\<close>

definition sync_fields :: "string \<Rightarrow> jsvalue \<Rightarrow> (string \<times> jsvalue) list option" where
  "sync_fields key data =
     (if key = ''formData'' then Some [(''forms'', data)]
      else if key = ''progressData'' then Some [(''progress'', data)]
      else if key = ''settings'' then Some [(''settings'', data)]
      else None)"

text \<open>
  The \<open>for\<close> loop of \<open>forceSync\<close> (lines 589 to 607) from the given keys up
  to its next \<open>await\<close>. The result is the keys left, the awaited one first
  (none when the loop has ended). A text that does not parse is caught and
  skipped; a key for which nothing is sent is removed without leaving the
  turn.
\<close>

fun sync_loop :: "runtime \<Rightarrow> string list \<Rightarrow> state \<Rightarrow> string list \<times> state" where
  "sync_loop rt [] s = ([], s)"
| "sync_loop rt (key # keys) s =
     (case parse_item rt (getItem key s) of
        None \<Rightarrow> sync_loop rt keys s
      | Some data \<Rightarrow>
          (case sync_fields key data of
             Some payload \<Rightarrow>
               (key # keys,
                s\<lparr>gatewayLog := gatewayLog s @ [(Reconcile key, user_path s, payload)]\<rparr>)
           | None \<Rightarrow> sync_loop rt keys (removeItem key s)))"

text \<open>
  What follows the loop: the pass \<open>p\<close> is suspended at an \<open>await\<close>, or it
  notifies \<open>'synced'\<close> and returns \<open>true\<close>.
\<close>

fun sync_continue :: "nat \<Rightarrow> string list \<times> state \<Rightarrow> bool completion \<times> state" where
  "sync_continue p ([], s) =
     (case notifySyncListeners Synced ''All changes saved'' s of
        (Return u, s1) \<Rightarrow> (Return True, s1)
      | (r, s1) \<Rightarrow> (Throw, s1))"
| "sync_continue p (key # keys, s) =
     (Pending, s\<lparr>reconciling := reconciling s @ [(p, key # keys)]\<rparr>)"

text \<open>\<open>forceSync\<close> (lines 578 to 611) up to its first \<open>await\<close> or its end.\<close>

definition forceSync :: "runtime \<Rightarrow> state \<Rightarrow> bool completion \<times> state" where
  "forceSync rt s =
     (if \<not> authenticated s then (Return False, s)
      else
        (case notifySyncListeners Syncing ''Syncing...'' s of
           (Return u, s1) \<Rightarrow>
             sync_continue (nextPass s1)
               (sync_loop rt (localKeys s1) (s1\<lparr>nextPass := Suc (nextPass s1)\<rparr>))
         | (r, s1) \<Rightarrow> (Throw, s1)))"

text \<open>
  The remote write awaited by the pass \<open>p\<close> settles. After a success the
  key is removed; a rejection is caught and the key stays. The loop goes on
  with the keys left.
\<close>

definition sync_settle :: "runtime \<Rightarrow> nat \<Rightarrow> bool \<Rightarrow> state \<Rightarrow> bool completion \<times> state" where
  "sync_settle rt p ok s =
     (case map_of (reconciling s) p of
        Some (key # keys) \<Rightarrow>
          (let s1 = s\<lparr>reconciling := AList.delete p (reconciling s)\<rparr>;
               s2 = (if ok then removeItem key s1 else s1)
           in sync_continue p (sync_loop rt keys s2))
      | _ \<Rightarrow> (Pending, s))"

section \<open>Document uploads (DocumentManager, src/unnamed/part_000)\<close>

text \<open>A \<open>File\<close>: its name, its size in bytes and its content type.\<close>

record upload_file =
  f_name :: string
  f_size :: nat
  f_type :: string

definition MAX_FILE_SIZE :: nat where
  "MAX_FILE_SIZE = 5 * 1024 * 1024"

definition ALLOWED_TYPES :: "string list" where
  "ALLOWED_TYPES = [''application/pdf'', ''image/jpeg'', ''image/png'', ''image/jpg'']"

text \<open>
  The three messages of \<open>validateFile\<close>; the text of the second one, which
  formats the size, is not modelled.
\<close>

datatype file_error = NoFileSelected | FileTooLarge | InvalidFileType

record validation =
  valid :: bool
  error :: "file_error option"

text \<open>\<open>validateFile\<close> (lines 44 to 66); \<open>None\<close> is a missing file (\<open>!file\<close>).\<close>

definition validateFile :: "upload_file option \<Rightarrow> validation" where
  "validateFile file =
     (case file of
        None \<Rightarrow> \<lparr>valid = False, error = Some NoFileSelected\<rparr>
      | Some f \<Rightarrow>
          if f_size f > MAX_FILE_SIZE then \<lparr>valid = False, error = Some FileTooLarge\<rparr>
          else if f_type f \<notin> set ALLOWED_TYPES then \<lparr>valid = False, error = Some InvalidFileType\<rparr>
          else \<lparr>valid = True, error = None\<rparr>)"

text \<open>
  What the Firebase services answer during one upload: whether Firebase is
  initialised (otherwise \<open>getStorage\<close> raises), the signed-in user, whether
  the upload task completes, the download URL (\<open>None\<close> when
  \<open>getDownloadURL\<close> fails) and whether the Firestore \<open>set\<close> succeeds.
\<close>

record firebase =
  initialized :: bool
  currentUser :: "string option"
  put_completes :: bool
  download_url :: "string option"
  set_succeeds :: bool

text \<open>
  The storage path \<open>users/${user.uid}/documents/${docType}/${timestamp}_${file.name}\<close>,
  kept as its four parts.
\<close>

record storage_path =
  p_uid :: string
  p_docType :: string
  p_timestamp :: nat
  p_fileName :: string

record doc_data =
  d_docType :: string
  d_fileName :: string
  d_fileUrl :: string
  d_storagePath :: storage_path
  d_mimeType :: string
  d_fileSize :: nat
  d_status :: string

text \<open>The writes \<open>uploadDocument\<close> attempts: the storage upload and the Firestore \<open>set\<close>.\<close>

datatype remote_write =
    StoragePut storage_path upload_file
  | DocumentSet string string doc_data

datatype upload_error =
    Invalid "file_error option"
  | NotInitialized
  | NotLoggedIn
  | TypeError
  | UploadFailed
  | MetadataFailed

text \<open>
  \<open>uploadDocument\<close> (lines 75 to 161), called at \<open>Date.now() = timestamp\<close>, with the content of
  \<open>localStorage\<close>: the promise's outcome (\<open>Inl\<close> a rejection), the remote
  writes attempted, in order, and \<open>localStorage\<close> afterwards. The progress
  callback is left out. Reading \<open>file.name\<close> of a missing file would raise;
  validation has rejected a missing file before.
\<close>

definition uploadDocument ::
  "firebase \<Rightarrow> nat \<Rightarrow> upload_file option \<Rightarrow> string \<Rightarrow> (string \<times> string) list
     \<Rightarrow> (upload_error + doc_data) \<times> remote_write list \<times> (string \<times> string) list" where
  "uploadDocument fb timestamp file docType store =
     (let validation = validateFile file in
      if \<not> valid validation then (Inl (Invalid (error validation)), [], store)
      else if \<not> initialized fb then (Inl NotInitialized, [], store)
      else
        (case currentUser fb of
           None \<Rightarrow> (Inl NotLoggedIn, [], store)
         | Some uid \<Rightarrow>
             (case file of
                None \<Rightarrow> (Inl TypeError, [], store)
              | Some f \<Rightarrow>
                  (let storagePath = \<lparr>p_uid = uid, p_docType = docType,
                                       p_timestamp = timestamp, p_fileName = f_name f\<rparr>;
                       put = StoragePut storagePath f
                   in if \<not> put_completes fb then (Inl UploadFailed, [put], store)
                      else
                        (case download_url fb of
                           None \<Rightarrow> (Inl MetadataFailed, [put], store)
                         | Some url \<Rightarrow>
                             (let docData = \<lparr>d_docType = docType, d_fileName = f_name f,
                                              d_fileUrl = url, d_storagePath = storagePath,
                                              d_mimeType = f_type f, d_fileSize = f_size f,
                                              d_status = ''uploaded''\<rparr>;
                                  written = [put, DocumentSet uid docType docData]
                              in if set_succeeds fb then (Inr docData, written, store)
                                 else (Inl MetadataFailed, written, store)))))))"

section \<open>Concrete states and helpers used in the statements\<close>

text \<open>A clock that always reads the same instant.\<close>

definition example_clock :: "nat \<Rightarrow> string" where
  "example_clock t = ''2024-01-01T00:00:00.000Z''"

text \<open>
  Six texts and the values they stand for. On these texts and values the
  example runtime below answers as \<open>JSON.parse\<close> and \<open>JSON.stringify\<close> do;
  it knows no other text and no other value, and the closed statements below
  ask it about no other. Its \<open>array_assign\<close> is asked about one
  assignment only, of the property \<open>firstName\<close> to the empty array; the
  name is neither an index nor \<open>length\<close>, so the elements stay as they
  are. Its store accepts every write.
\<close>

definition example_table :: "(string \<times> jsvalue) list" where
  "example_table =
     [(''{}'', JObj []),
      (''[]'', JArr []),
      (''{\"firstName\":\"Ana\"}'', JObj [(''firstName'', JStr ''Ana'')]),
      (''{\"_lastUpdated\":\"2024-01-01T00:00:00.000Z\"}'',
         JObj [(''_lastUpdated'', JStr ''2024-01-01T00:00:00.000Z'')]),
      (''{\"firstName\":\"Ana\",\"_lastUpdated\":\"2024-01-01T00:00:00.000Z\"}'',
         JObj [(''firstName'', JStr ''Ana''),
               (''_lastUpdated'', JStr ''2024-01-01T00:00:00.000Z'')]),
      (''{\"firstName\":\"Ana\",\"lastName\":\"Li\",\"_lastUpdated\":\"2024-01-01T00:00:00.000Z\"}'',
         JObj [(''firstName'', JStr ''Ana''), (''lastName'', JStr ''Li''),
               (''_lastUpdated'', JStr ''2024-01-01T00:00:00.000Z'')])]"

definition example_runtime :: runtime where
  "example_runtime =
     \<lparr> toISOString = example_clock,
       JSON_parse = map_of example_table,
       JSON_stringify = map_of (map (\<lambda>(text, v). (v, text)) example_table),
       array_assign = (\<lambda>elems name v. Some elems),
       storage_accepts = (\<lambda>store key text. True) \<rparr>"

text \<open>A runtime like it whose store is full: it refuses every write.\<close>

definition full_runtime :: runtime where
  "full_runtime = example_runtime\<lparr>storage_accepts := (\<lambda>store key text. False)\<rparr>"

text \<open>A fresh object in which the user \<open>u1\<close> is signed in.\<close>

definition signed_in :: state where
  "signed_in = constructor\<lparr>userId := Some ''u1''\<rparr>"

definition never_throws :: "syncstatus \<Rightarrow> string \<Rightarrow> bool" where
  "never_throws status message = False"

definition always_throws :: "syncstatus \<Rightarrow> string \<Rightarrow> bool" where
  "always_throws status message = True"

definition throws_on_error :: "syncstatus \<Rightarrow> string \<Rightarrow> bool" where
  "throws_on_error status message = (status = Error)"

text \<open>The signed-in user has one entry waiting under the key \<open>formData\<close>.\<close>

definition backlog_formData :: state where
  "backlog_formData = signed_in\<lparr>localStorage := [(''formData'', ''{\"firstName\":\"Ana\"}'')]\<rparr>"

text \<open>
  The signed-in user has recorded \<open>("users", "u1", "firstName", "Ana")\<close> at
  time 0 and the timeout has run at time 500: the remote write is awaited. In
  the second state a listener that raises on \<open>'error'\<close> is registered.
\<close>

definition flush_awaited :: state where
  "flush_awaited =
     advance example_runtime 500
       (snd (saveFormData example_runtime 0 ''users'' ''u1'' ''firstName'' (JStr ''Ana'')
          signed_in))"

definition flush_awaited_fragile :: state where
  "flush_awaited_fragile =
     advance example_runtime 500
       (snd (saveFormData example_runtime 0 ''users'' ''u1'' ''firstName'' (JStr ''Ana'')
          (addSyncListener (Callback 1 throws_on_error) signed_in)))"

text \<open>
  A run of calls \<open>saveFormData(collection, docId, fieldName, value)\<close> for one
  field, each given with its time: before a call, time passes up to it.
\<close>

fun rapid ::
  "runtime \<Rightarrow> string \<Rightarrow> string \<Rightarrow> string \<Rightarrow> (nat \<times> jsvalue) list \<Rightarrow> state \<Rightarrow> state" where
  "rapid rt collection docId fieldName [] s = s"
| "rapid rt collection docId fieldName ((t, val) # calls) s =
     rapid rt collection docId fieldName calls
       (snd (saveFormData rt t collection docId fieldName val (advance rt t s)))"

text \<open>
  Each call comes no earlier than the one before it (made at \<open>t\<close>) and less
  than the interval \<open>D\<close> after it.
\<close>

fun spaced :: "nat \<Rightarrow> nat \<Rightarrow> (nat \<times> jsvalue) list \<Rightarrow> bool" where
  "spaced D t [] = True"
| "spaced D t ((t', val) # calls) = (t \<le> t' \<and> t' < t + D \<and> spaced D t' calls)"

text \<open>The remote writes sent by flushes of one write key, in order.\<close>

definition key_flushes :: "string \<Rightarrow> state \<Rightarrow> gateway_call list" where
  "key_flushes key s = filter (\<lambda>c. fst c = Flush key) (gatewayLog s)"

text \<open>The scheduled timeouts of one write key.\<close>

definition key_timers :: "string \<Rightarrow> state \<Rightarrow> (nat \<times> nat \<times> pending_write) list" where
  "key_timers key s = filter (\<lambda>x. write_key (snd (snd x)) = key) (timers s)"

text \<open>The remote write a timeout sends when it runs, and the timeouts due at a time.\<close>

definition timer_call ::
  "runtime \<Rightarrow> state \<Rightarrow> nat \<times> nat \<times> pending_write \<Rightarrow> gateway_call" where
  "timer_call rt s x =
     (Flush (write_key (snd (snd x))), user_path s,
      flush_payload (toISOString rt (fst (snd x))) (snd (snd x)))"

definition due_timers :: "nat \<Rightarrow> state \<Rightarrow> (nat \<times> nat \<times> pending_write) list" where
  "due_timers t s = sort_key (\<lambda>x. fst (snd x)) (filter (\<lambda>x. fst (snd x) \<le> t) (timers s))"

text \<open>
  The timer table at time \<open>t\<close>, seen from one write key: timeout identifiers
  are distinct and were all handed out already, and a timeout scheduled for
  the key is the one recorded in \<open>pendingWrites\<close> and is not due yet.
\<close>

definition tidy :: "string \<Rightarrow> nat \<Rightarrow> state \<Rightarrow> bool" where
  "tidy key t s =
     (distinct (map fst (timers s)) \<and>
      (\<forall>x \<in> set (timers s). fst x < nextTimer s) \<and>
      (\<forall>x \<in> set (timers s). write_key (snd (snd x)) = key \<longrightarrow>
          pendingWrites s key = Some (fst x) \<and> t < fst (snd x)))"

text \<open>
  The timer table as calls and the passing of time leave it: identifiers are
  distinct and were handed out already, and every scheduled timeout is the
  one recorded in \<open>pendingWrites\<close> for its write key.
\<close>

definition recorded :: "state \<Rightarrow> bool" where
  "recorded s =
     (distinct (map fst (timers s)) \<and>
      (\<forall>x \<in> set (timers s). fst x < nextTimer s) \<and>
      (\<forall>x \<in> set (timers s). pendingWrites s (write_key (snd (snd x))) = Some (fst x)))"

text \<open>
  The table right after a call for the key: exactly one timeout is scheduled
  for it, with the given due time and captured variables, and it is the one
  recorded in \<open>pendingWrites\<close>.
\<close>

definition armed :: "string \<Rightarrow> nat \<Rightarrow> pending_write \<Rightarrow> state \<Rightarrow> bool" where
  "armed key due w s =
     (distinct (map fst (timers s)) \<and>
      (\<forall>x \<in> set (timers s). fst x < nextTimer s) \<and>
      (\<exists>i. key_timers key s = [(i, due, w)] \<and> pendingWrites s key = Some i))"

text \<open>
  The signed-in user, with a listener registered, has recorded a last name at
  time 0 and a first name at time 100; both timeouts are scheduled.
\<close>

definition two_pending :: state where
  "two_pending =
     rapid example_runtime ''users'' ''u1'' ''firstName'' [(100, JStr ''A'')]
       (rapid example_runtime ''users'' ''u1'' ''lastName'' [(0, JStr ''L'')]
          (addSyncListener (Callback 1 never_throws) signed_in))"

text \<open>
  The listeners a notification reaches: the registered functions, in
  registration order, up to and including the first one that raises.
\<close>

definition invoked :: "listener list \<Rightarrow> syncstatus \<Rightarrow> string \<Rightarrow> listener list" where
  "invoked ls status message =
     takeWhile (\<lambda>l. \<not> raises l status message) (filter callable ls) @
     take 1 (dropWhile (\<lambda>l. \<not> raises l status message) (filter callable ls))"

text \<open>
  The object \<open>_saveToLocalStorage\<close> starts from: the empty object when the
  key is missing or holds the empty text, the parsed text when that is an
  object; \<open>None\<close> in every other case.
\<close>

definition prior_object :: "runtime \<Rightarrow> string option \<Rightarrow> (string \<times> jsvalue) list option" where
  "prior_object rt existing =
     (if truthy existing then
        (case parse_item rt existing of Some (JObj props) \<Rightarrow> Some props | _ \<Rightarrow> None)
      else Some [])"

text \<open>
  The stored text is not empty and either fails to parse or parses to a value
  that takes no property: \<open>undefined\<close>, \<open>null\<close>, a boolean, a number or a
  string.
\<close>

definition unusable :: "runtime \<Rightarrow> string option \<Rightarrow> bool" where
  "unusable rt existing =
     (truthy existing \<and>
      (case parse_item rt existing of
         None \<Rightarrow> True
       | Some (JObj props) \<Rightarrow> False
       | Some (JArr elems) \<Rightarrow> False
       | Some v \<Rightarrow> True))"

text \<open>
  The object \<open>_saveToLocalStorage\<close> serialises when it starts from the
  properties \<open>props\<close>.
\<close>

definition updated_object ::
  "string \<Rightarrow> string \<Rightarrow> jsvalue \<Rightarrow> (string \<times> jsvalue) list \<Rightarrow> (string \<times> jsvalue) list" where
  "updated_object stamp fieldName val props =
     set_property ''_lastUpdated'' (JStr stamp) (set_property fieldName val props)"

section \<open>The initial status\<close>

text \<open>
  C8, as stated: the status of a new \<open>DataSync\<close> object is \<open>Offline\<close>. The
  constructor stores \<open>'synced'\<close>, so the statement fails.
\<close>

theorem C8_initial_status_not_offline:
  "syncStatus constructor \<noteq> Offline"
  by (simp add: constructor_def)

text \<open>
  C8, amended: the initial value of the sync status, before any write, flush,
  identity change or reconciliation, is \<open>Synced\<close>.
\<close>

theorem C8_initial_status_synced:
  "syncStatus constructor = Synced"
  by (simp add: constructor_def)

section \<open>Listener notification\<close>

lemma call_listeners_invoked:
  "call_listeners ls status message =
     (map (\<lambda>l. (listener_id l, status, message)) (invoked ls status message),
      \<exists>l \<in> set ls. raises l status message)"
proof (induction ls)
  case Nil
  show ?case by (simp add: invoked_def)
next
  case (Cons l ls)
  show ?case
  proof (cases l)
    case (Callback i throws)
    with Cons show ?thesis by (auto simp: invoked_def)
  next
    case (NotCallable i)
    with Cons show ?thesis by (auto simp: invoked_def)
  qed
qed

lemma invoked_all:
  "\<forall>l \<in> set ls. \<not> raises l status message \<Longrightarrow> invoked ls status message = filter callable ls"
  by (simp add: invoked_def takeWhile_eq_all_conv[THEN iffD2] dropWhile_eq_Nil_conv[THEN iffD2])

lemma notify_quiet:
  "\<forall>l \<in> set (syncListeners s). \<not> raises l status message \<Longrightarrow>
   notifySyncListeners status message s =
     (Return (),
      s\<lparr>syncStatus := status,
        listenerLog := listenerLog s @
          map (\<lambda>l. (listener_id l, status, message)) (filter callable (syncListeners s))\<rparr>)"
  by (simp add: notifySyncListeners_def call_listeners_invoked invoked_all)

text \<open>
  C7, as stated: an exception thrown by one listener does not keep a listener
  registered later from being invoked. With a first listener that raises and a
  second one that does not, the notification invokes the first one only.
\<close>

theorem C7_later_listener_not_invoked:
  "listenerLog (snd (notifySyncListeners Offline ''Offline mode''
      (addSyncListener (Callback 2 never_throws)
        (addSyncListener (Callback 1 always_throws) constructor)))) =
   [(1, Offline, ''Offline mode'')]"
  by (simp add: notifySyncListeners_def addSyncListener_def constructor_def
        always_throws_def never_throws_def)

text \<open>
  C7, amended: for every status transition and every list of registered
  listeners, the new status is stored and then the registered functions are
  invoked synchronously in registration order, up to and including the first
  one that throws; its exception reaches the caller and no listener registered
  after it is invoked. When no listener throws, every registered function is
  invoked, in registration order.
\<close>

theorem C7_notify_stops_at_first_exception:
  "notifySyncListeners status message s =
     (if \<exists>l \<in> set (syncListeners s). raises l status message then Throw else Return (),
      s\<lparr>syncStatus := status,
        listenerLog := listenerLog s @
          map (\<lambda>l. (listener_id l, status, message)) (invoked (syncListeners s) status message)\<rparr>) \<and>
   ((\<forall>l \<in> set (syncListeners s). \<not> raises l status message) \<longrightarrow>
      invoked (syncListeners s) status message = filter callable (syncListeners s))"
  by (simp add: notifySyncListeners_def call_listeners_invoked invoked_all)

theorem C7_notify_stops_at_first_exception_witness:
  "\<not> raises (Callback 1 never_throws) Syncing ''Saving...'' \<and>
   \<not> raises (NotCallable 2) Syncing ''Saving...'' \<and>
   \<not> raises (Callback 3 never_throws) Syncing ''Saving...'' \<and>
   invoked [Callback 1 never_throws, NotCallable 2, Callback 3 never_throws] Syncing ''Saving...'' =
     [Callback 1 never_throws, Callback 3 never_throws] \<and>
   listenerLog (snd (notifySyncListeners Syncing ''Saving...''
      (addSyncListener (Callback 3 never_throws)
        (addSyncListener (NotCallable 2)
          (addSyncListener (Callback 1 never_throws) constructor))))) =
   [(1, Syncing, ''Saving...''), (3, Syncing, ''Saving...'')]"
  using C7_notify_stops_at_first_exception [of Syncing "''Saving...''"
      "addSyncListener (Callback 3 never_throws)
        (addSyncListener (NotCallable 2)
          (addSyncListener (Callback 1 never_throws) constructor))"]
  by (simp add: addSyncListener_def constructor_def never_throws_def)

section \<open>Validation of uploads\<close>

text \<open>
  C9: for every file, \<open>uploadDocument\<close> rejects the upload before it attempts
  any remote storage or database write whenever the file is missing, is larger
  than 5 MB (5242880 bytes) or has a content type outside
  \<open>application/pdf\<close>, \<open>image/jpeg\<close>, \<open>image/png\<close>, \<open>image/jpg\<close>;
  \<open>validateFile\<close> answers \<open>valid: true\<close> exactly when none of these holds;
  and a rejected file leaves the local store as it was, so it produces no
  backlog entry.
\<close>

theorem C9_upload_validation:
  "(valid (validateFile file) \<longleftrightarrow>
      (\<exists>f. file = Some f \<and> f_size f \<le> 5242880 \<and>
           f_type f \<in> {''application/pdf'', ''image/jpeg'', ''image/png'', ''image/jpg''})) \<and>
   (\<not> valid (validateFile file) \<longrightarrow>
      uploadDocument fb timestamp file docType store =
        (Inl (Invalid (error (validateFile file))), [], store)) \<and>
   snd (snd (uploadDocument fb timestamp file docType store)) = store"
  by (auto simp: validateFile_def uploadDocument_def MAX_FILE_SIZE_def ALLOWED_TYPES_def Let_def
           split: option.splits)

theorem C9_upload_validation_witness:
  "\<not> valid (validateFile (Some \<lparr>f_name = ''scan.gif'', f_size = 1024, f_type = ''image/gif''\<rparr>)) \<and>
   uploadDocument
     \<lparr>initialized = True, currentUser = Some ''u1'', put_completes = True,
       download_url = Some ''https://example.org/scan'', set_succeeds = True\<rparr>
     1700000000000 (Some \<lparr>f_name = ''scan.gif'', f_size = 1024, f_type = ''image/gif''\<rparr>)
     ''passport'' [(''forms_u1'', ''{}'')] =
   (Inl (Invalid (Some InvalidFileType)), [], [(''forms_u1'', ''{}'')])"
  using C9_upload_validation [of
      "Some \<lparr>f_name = ''scan.gif'', f_size = 1024, f_type = ''image/gif''\<rparr>"
      "\<lparr>initialized = True, currentUser = Some ''u1'', put_completes = True,
         download_url = Some ''https://example.org/scan'', set_succeeds = True\<rparr>"
      1700000000000 "''passport''" "[(''forms_u1'', ''{}'')]"]
  by (simp add: validateFile_def MAX_FILE_SIZE_def ALLOWED_TYPES_def)

section \<open>The fallback write\<close>

text \<open>
  Assigning a property: a name other than \<open>__proto__\<close>, or one the object
  has as its own, is set to the value; every other name is left alone.
\<close>

lemma set_property_other:
  "name' \<noteq> name \<Longrightarrow> map_of (set_property name v props) name' = map_of props name'"
  by (simp add: set_property_def update_conv')

lemma set_property_same:
  "name \<noteq> ''__proto__'' \<Longrightarrow> map_of (set_property name v props) name = Some v"
  by (simp add: set_property_def update_conv')

lemma updated_object_stamp:
  "map_of (updated_object stamp fieldName val props) ''_lastUpdated'' = Some (JStr stamp)"
  by (simp add: updated_object_def set_property_same)

lemma updated_object_field:
  "fieldName \<noteq> ''_lastUpdated'' \<Longrightarrow> fieldName \<noteq> ''__proto__'' \<Longrightarrow>
   map_of (updated_object stamp fieldName val props) fieldName = Some val"
  by (simp add: updated_object_def set_property_same set_property_other)

lemma updated_object_other:
  "name \<noteq> fieldName \<Longrightarrow> name \<noteq> ''_lastUpdated'' \<Longrightarrow>
   map_of (updated_object stamp fieldName val props) name = map_of props name"
  by (simp add: updated_object_def set_property_other)

text \<open>
The outcome of the fallback write, by cases.
\<close>

lemma saveToLocalStorage_object:
  assumes "prior_object rt (getItem (collection @ ''_'' @ docId) s) = Some props"
  shows "saveToLocalStorage rt stamp collection docId fieldName val s =
           store_json rt (collection @ ''_'' @ docId)
             (JObj (updated_object stamp fieldName val props)) s"
  using assms
  by (auto simp: saveToLocalStorage_def prior_object_def updated_object_def Let_def
           split: option.splits jsvalue.splits if_splits)

lemma saveToLocalStorage_array:
  assumes "truthy (getItem (collection @ ''_'' @ docId) s)"
    and "parse_item rt (getItem (collection @ ''_'' @ docId) s) = Some (JArr elems)"
    and "array_assign rt elems fieldName val = Some elems'"
  shows "saveToLocalStorage rt stamp collection docId fieldName val s =
           store_json rt (collection @ ''_'' @ docId) (JArr elems') s"
  using assms by (simp add: saveToLocalStorage_def Let_def)

lemma saveToLocalStorage_unusable:
  assumes "unusable rt (getItem (collection @ ''_'' @ docId) s)"
  shows "saveToLocalStorage rt stamp collection docId fieldName val s = (Throw, s)"
  using assms
  by (auto simp: saveToLocalStorage_def unusable_def Let_def
           split: option.splits jsvalue.splits if_splits)

lemma store_json_cases:
  "store_json rt key data s =
     (case JSON_stringify rt data of
        None \<Rightarrow> (Throw, s)
      | Some text \<Rightarrow>
          if storage_accepts rt (localStorage s) key text
          then (Return (), s\<lparr>localStorage := AList.update key text (localStorage s)\<rparr>)
          else (Throw, s))"
  by (simp add: store_json_def setItem_def split: option.splits)

lemma saveToLocalStorage_frame:
  "snd (saveToLocalStorage rt stamp collection docId fieldName val s) =
     s\<lparr>localStorage := localStorage (snd (saveToLocalStorage rt stamp collection docId fieldName val s))\<rparr>"
  by (auto simp: saveToLocalStorage_def store_json_cases Let_def
           split: option.splits jsvalue.splits if_splits)

lemma saveToLocalStorage_throw:
  "fst (saveToLocalStorage rt stamp collection docId fieldName val s) \<noteq> Return () \<Longrightarrow>
   saveToLocalStorage rt stamp collection docId fieldName val s = (Throw, s)"
  by (auto simp: saveToLocalStorage_def store_json_cases Let_def
           split: option.splits jsvalue.splits if_splits)

text \<open>
  C10, as stated: after every call the object stored has the property
  \<open>fieldName\<close> set to \<open>value\<close>. With the field name \<open>_lastUpdated\<close> the
  timestamp is assigned after the value and replaces it: the stored text is
  the object whose only property \<open>_lastUpdated\<close> is the timestamp, and
  \<open>"Ana"\<close> is nowhere in it.
\<close>

theorem C10_timestamp_replaces_value:
  "getItem (''users'' @ ''_'' @ ''u1'') (constructor\<lparr>localStorage := [(''users_u1'', ''{}'')]\<rparr>) = Some ''{}'' \<and>
   JSON_parse example_runtime ''{}'' = Some (JObj []) \<and>
   saveToLocalStorage example_runtime ''2024-01-01T00:00:00.000Z'' ''users'' ''u1''
       ''_lastUpdated'' (JStr ''Ana'') (constructor\<lparr>localStorage := [(''users_u1'', ''{}'')]\<rparr>) =
     (Return (),
      constructor\<lparr>localStorage :=
        [(''users_u1'', ''{\"_lastUpdated\":\"2024-01-01T00:00:00.000Z\"}'')]\<rparr>) \<and>
   JSON_parse example_runtime ''{\"_lastUpdated\":\"2024-01-01T00:00:00.000Z\"}'' =
     Some (JObj [(''_lastUpdated'', JStr ''2024-01-01T00:00:00.000Z'')])"
  by (simp add: saveToLocalStorage_def store_json_def setItem_def getItem_def truthy_def
        parse_item_def set_property_def example_runtime_def example_table_def constructor_def)

text \<open>
  C10, amended: for every call \<open>_saveToLocalStorage(collection, docId, fieldName, value)\<close>
  where the store holds under the key \<open>collection_docId\<close> a text that is not
  empty and that \<open>JSON.parse\<close> reads as an object, where \<open>JSON.stringify\<close>
  gives a text for the updated object and where the store accepts that text:
  the call returns, and the text stored under the key afterwards is the
  serialisation of the updated object. The updated object is the parsed
  object after the assignment of \<open>value\<close> to \<open>fieldName\<close> and then of the
  current timestamp to \<open>_lastUpdated\<close>. Its property \<open>_lastUpdated\<close> is
  the timestamp; when \<open>fieldName\<close> is neither \<open>_lastUpdated\<close> nor
  \<open>__proto__\<close>, its property \<open>fieldName\<close> is \<open>value\<close>; every other
  property of the parsed object is in it with the value it had. Every other
  key of the store and the order of the keys are unchanged, and so is the rest
  of the state. The statement is about the parsed values: what
  \<open>JSON.stringify\<close> writes for an unchanged property is not said to be the
  characters that were read.
\<close>

theorem C10_saveToLocalStorage_frame:
  assumes "getItem (collection @ ''_'' @ docId) s = Some text0"
    and "text0 \<noteq> []"
    and "JSON_parse rt text0 = Some (JObj props)"
    and "JSON_stringify rt (JObj (updated_object stamp fieldName val props)) = Some written"
    and "storage_accepts rt (localStorage s) (collection @ ''_'' @ docId) written"
  shows "saveToLocalStorage rt stamp collection docId fieldName val s =
           (Return (),
            s\<lparr>localStorage := AList.update (collection @ ''_'' @ docId) written (localStorage s)\<rparr>) \<and>
         updated_object stamp fieldName val props =
           set_property ''_lastUpdated'' (JStr stamp) (set_property fieldName val props) \<and>
         map_of (updated_object stamp fieldName val props) ''_lastUpdated'' = Some (JStr stamp) \<and>
         (fieldName \<noteq> ''_lastUpdated'' \<and> fieldName \<noteq> ''__proto__'' \<longrightarrow>
            map_of (updated_object stamp fieldName val props) fieldName = Some val) \<and>
         (\<forall>name. name \<noteq> fieldName \<and> name \<noteq> ''_lastUpdated'' \<longrightarrow>
            map_of (updated_object stamp fieldName val props) name = map_of props name) \<and>
         (\<forall>k. k \<noteq> collection @ ''_'' @ docId \<longrightarrow>
            getItem k (snd (saveToLocalStorage rt stamp collection docId fieldName val s)) =
            getItem k s) \<and>
         map fst (localStorage (snd (saveToLocalStorage rt stamp collection docId fieldName val s)))
           = map fst (localStorage s)"
proof -
  have prior: "prior_object rt (getItem (collection @ ''_'' @ docId) s) = Some props"
    using assms(1-3) by (simp add: prior_object_def truthy_def parse_item_def)
  have run: "saveToLocalStorage rt stamp collection docId fieldName val s =
           (Return (),
            s\<lparr>localStorage := AList.update (collection @ ''_'' @ docId) written (localStorage s)\<rparr>)"
    using assms(4,5) by (simp add: saveToLocalStorage_object [OF prior] store_json_cases)
  have present: "collection @ ''_'' @ docId \<in> fst ` set (localStorage s)"
    using assms(1) by (auto simp: getItem_def dest: map_of_SomeD intro: rev_image_eqI)
  have keys: "map fst (AList.update (collection @ ''_'' @ docId) x (localStorage s))
                = map fst (localStorage s)" for x
    using present by (simp add: update_keys)
  show ?thesis
    unfolding run using keys
    by (simp add: getItem_def update_conv' updated_object_stamp updated_object_field
          updated_object_other)
       (simp add: updated_object_def)
qed

theorem C10_saveToLocalStorage_frame_witness:
  "getItem (''forms'' @ ''_'' @ ''u1'')
     (constructor\<lparr>localStorage :=
        [(''forms_u1'', ''{\"firstName\":\"Ana\"}''), (''settings'', ''{}'')]\<rparr>) =
     Some ''{\"firstName\":\"Ana\"}'' \<and>
   ''{\"firstName\":\"Ana\"}'' \<noteq> [] \<and>
   JSON_parse example_runtime ''{\"firstName\":\"Ana\"}'' =
     Some (JObj [(''firstName'', JStr ''Ana'')]) \<and>
   updated_object ''2024-01-01T00:00:00.000Z'' ''lastName'' (JStr ''Li'')
       [(''firstName'', JStr ''Ana'')] =
     [(''firstName'', JStr ''Ana''), (''lastName'', JStr ''Li''),
      (''_lastUpdated'', JStr ''2024-01-01T00:00:00.000Z'')] \<and>
   JSON_stringify example_runtime
       (JObj [(''firstName'', JStr ''Ana''), (''lastName'', JStr ''Li''),
              (''_lastUpdated'', JStr ''2024-01-01T00:00:00.000Z'')]) =
     Some ''{\"firstName\":\"Ana\",\"lastName\":\"Li\",\"_lastUpdated\":\"2024-01-01T00:00:00.000Z\"}'' \<and>
   saveToLocalStorage example_runtime ''2024-01-01T00:00:00.000Z'' ''forms'' ''u1''
       ''lastName'' (JStr ''Li'')
       (constructor\<lparr>localStorage :=
          [(''forms_u1'', ''{\"firstName\":\"Ana\"}''), (''settings'', ''{}'')]\<rparr>) =
     (Return (),
      constructor\<lparr>localStorage :=
        [(''forms_u1'',
          ''{\"firstName\":\"Ana\",\"lastName\":\"Li\",\"_lastUpdated\":\"2024-01-01T00:00:00.000Z\"}''),
         (''settings'', ''{}'')]\<rparr>)"
proof -
  let ?s = "constructor\<lparr>localStorage :=
        [(''forms_u1'', ''{\"firstName\":\"Ana\"}''), (''settings'', ''{}'')]\<rparr>"
  let ?written = "''{\"firstName\":\"Ana\",\"lastName\":\"Li\",\"_lastUpdated\":\"2024-01-01T00:00:00.000Z\"}''"
  have h1: "getItem (''forms'' @ ''_'' @ ''u1'') ?s = Some ''{\"firstName\":\"Ana\"}''"
    by (simp add: getItem_def)
  have h2: "''{\"firstName\":\"Ana\"}'' \<noteq> []"
    by simp
  have h3: "JSON_parse example_runtime ''{\"firstName\":\"Ana\"}'' =
      Some (JObj [(''firstName'', JStr ''Ana'')])"
    by (simp add: example_runtime_def example_table_def)
  have obj: "updated_object ''2024-01-01T00:00:00.000Z'' ''lastName'' (JStr ''Li'')
       [(''firstName'', JStr ''Ana'')] =
     [(''firstName'', JStr ''Ana''), (''lastName'', JStr ''Li''),
      (''_lastUpdated'', JStr ''2024-01-01T00:00:00.000Z'')]"
    by (simp add: updated_object_def set_property_def)
  have str: "JSON_stringify example_runtime
       (JObj [(''firstName'', JStr ''Ana''), (''lastName'', JStr ''Li''),
              (''_lastUpdated'', JStr ''2024-01-01T00:00:00.000Z'')]) = Some ?written"
    by (simp add: example_runtime_def example_table_def)
  have h4: "JSON_stringify example_runtime
       (JObj (updated_object ''2024-01-01T00:00:00.000Z'' ''lastName'' (JStr ''Li'')
          [(''firstName'', JStr ''Ana'')])) = Some ?written"
    unfolding obj by (rule str)
  have h5: "storage_accepts example_runtime (localStorage ?s) (''forms'' @ ''_'' @ ''u1'') ?written"
    by (simp add: example_runtime_def)
  have run: "saveToLocalStorage example_runtime ''2024-01-01T00:00:00.000Z'' ''forms'' ''u1''
       ''lastName'' (JStr ''Li'') ?s =
     (Return (),
      ?s\<lparr>localStorage := AList.update (''forms'' @ ''_'' @ ''u1'') ?written (localStorage ?s)\<rparr>)"
    using C10_saveToLocalStorage_frame [OF h1 h2 h3 h4 h5] by blast
  show ?thesis
    using h1 h3 obj str run by simp
qed

section \<open>Writes made without an identity\<close>

text \<open>
  C4, as stated: after every call made without an identity the backlog entry
  holds exactly the value passed. For the field name \<open>_lastUpdated\<close> the
  timestamp assigned next replaces the value: the entry does not hold
  \<open>"Ana"\<close>.
\<close>

theorem C4_timestamp_replaces_value:
  "\<not> authenticated constructor \<and>
   saveFormData example_runtime 0 ''users'' ''u1'' ''_lastUpdated'' (JStr ''Ana'') constructor =
     (Return (),
      constructor\<lparr>localStorage :=
        [(''users_u1'', ''{\"_lastUpdated\":\"2024-01-01T00:00:00.000Z\"}'')]\<rparr>) \<and>
   JSON_parse example_runtime ''{\"_lastUpdated\":\"2024-01-01T00:00:00.000Z\"}'' =
     Some (JObj [(''_lastUpdated'', JStr ''2024-01-01T00:00:00.000Z'')])"
  by (simp add: saveFormData_def saveToLocalStorage_def store_json_def setItem_def getItem_def
        truthy_def parse_item_def set_property_def example_runtime_def example_table_def
        example_clock_def authenticated_def constructor_def)

text \<open>
  C4, amended: for every call \<open>saveFormData(collection, docId, fieldName, value)\<close>
  made while no authenticated identity is present, no remote write is
  attempted, no debounce timer is created and the sync status is not changed:
  only \<open>localStorage\<close> can differ afterwards. When the store holds nothing,
  the empty text or a text that \<open>JSON.parse\<close> reads as an object under the
  key \<open>collection_docId\<close>, when \<open>JSON.stringify\<close> gives a text for the
  updated object and the store accepts that text, the call returns and the
  text stored under that key is the serialisation of the updated object; when
  moreover \<open>fieldName\<close> is neither \<open>_lastUpdated\<close> nor \<open>__proto__\<close>, the
  property \<open>fieldName\<close> of that object is exactly the value passed. When the
  store holds under that key a text that does not parse, or that parses to
  \<open>null\<close>, a boolean, a number or a string, the call raises and changes
  nothing; so it does when the store refuses the text. Whenever the call does
  not return normally, it raises and changes nothing. When the store holds
  under that key a text that parses to an array, the assignment acts on the
  array: when it succeeds, \<open>JSON.stringify\<close> gives a text for the array
  and the store accepts that text, the call returns and the text stored is
  the serialisation of the array (for the empty array and a field name that
  is no index, the text of the empty array: the value is not kept). The value
  is held by the object that is serialised; what the stored text shows of it
  is what \<open>JSON.stringify\<close> writes.
\<close>

theorem C4_unauthenticated_write:
  assumes "\<not> authenticated s"
  shows "snd (saveFormData rt t collection docId fieldName val s) =
           s\<lparr>localStorage :=
               localStorage (snd (saveFormData rt t collection docId fieldName val s))\<rparr> \<and>
         gatewayLog (snd (saveFormData rt t collection docId fieldName val s)) = gatewayLog s \<and>
         timers (snd (saveFormData rt t collection docId fieldName val s)) = timers s \<and>
         pendingWrites (snd (saveFormData rt t collection docId fieldName val s)) = pendingWrites s \<and>
         syncStatus (snd (saveFormData rt t collection docId fieldName val s)) = syncStatus s \<and>
         (prior_object rt (getItem (collection @ ''_'' @ docId) s) = Some props \<and>
          JSON_stringify rt (JObj (updated_object (toISOString rt t) fieldName val props)) = Some written \<and>
          storage_accepts rt (localStorage s) (collection @ ''_'' @ docId) written \<longrightarrow>
            saveFormData rt t collection docId fieldName val s =
              (Return (),
               s\<lparr>localStorage := AList.update (collection @ ''_'' @ docId) written (localStorage s)\<rparr>) \<and>
            getItem (collection @ ''_'' @ docId)
              (snd (saveFormData rt t collection docId fieldName val s)) = Some written \<and>
            (fieldName \<noteq> ''_lastUpdated'' \<and> fieldName \<noteq> ''__proto__'' \<longrightarrow>
               map_of (updated_object (toISOString rt t) fieldName val props) fieldName = Some val)) \<and>
         (truthy (getItem (collection @ ''_'' @ docId) s) \<and>
          parse_item rt (getItem (collection @ ''_'' @ docId) s) = Some (JArr elems) \<and>
          array_assign rt elems fieldName val = Some elems' \<and>
          JSON_stringify rt (JArr elems') = Some written' \<and>
          storage_accepts rt (localStorage s) (collection @ ''_'' @ docId) written' \<longrightarrow>
            saveFormData rt t collection docId fieldName val s =
              (Return (),
               s\<lparr>localStorage := AList.update (collection @ ''_'' @ docId) written' (localStorage s)\<rparr>)) \<and>
         (unusable rt (getItem (collection @ ''_'' @ docId) s) \<longrightarrow>
            saveFormData rt t collection docId fieldName val s = (Throw, s)) \<and>
         (prior_object rt (getItem (collection @ ''_'' @ docId) s) = Some props \<and>
          JSON_stringify rt (JObj (updated_object (toISOString rt t) fieldName val props)) = Some written \<and>
          \<not> storage_accepts rt (localStorage s) (collection @ ''_'' @ docId) written \<longrightarrow>
            saveFormData rt t collection docId fieldName val s = (Throw, s)) \<and>
         (fst (saveFormData rt t collection docId fieldName val s) \<noteq> Return () \<longrightarrow>
            saveFormData rt t collection docId fieldName val s = (Throw, s))"
proof -
  have run: "saveFormData rt t collection docId fieldName val s =
               saveToLocalStorage rt (toISOString rt t) collection docId fieldName val s"
    using assms by (simp add: saveFormData_def)
  have frame: "snd (saveToLocalStorage rt (toISOString rt t) collection docId fieldName val s) =
     s\<lparr>localStorage := localStorage
        (snd (saveToLocalStorage rt (toISOString rt t) collection docId fieldName val s))\<rparr>"
    by (rule saveToLocalStorage_frame)
  have fields: "gatewayLog (s\<lparr>localStorage := x\<rparr>) = gatewayLog s"
    "timers (s\<lparr>localStorage := x\<rparr>) = timers s"
    "pendingWrites (s\<lparr>localStorage := x\<rparr>) = pendingWrites s"
    "syncStatus (s\<lparr>localStorage := x\<rparr>) = syncStatus s" for x
    by simp_all
  have stored: "saveToLocalStorage rt (toISOString rt t) collection docId fieldName val s =
              (Return (),
               s\<lparr>localStorage := AList.update (collection @ ''_'' @ docId) written (localStorage s)\<rparr>)"
    if "prior_object rt (getItem (collection @ ''_'' @ docId) s) = Some props"
      and "JSON_stringify rt (JObj (updated_object (toISOString rt t) fieldName val props)) = Some written"
      and "storage_accepts rt (localStorage s) (collection @ ''_'' @ docId) written"
    using that by (simp add: saveToLocalStorage_object store_json_cases)
  have refused: "saveToLocalStorage rt (toISOString rt t) collection docId fieldName val s = (Throw, s)"
    if "prior_object rt (getItem (collection @ ''_'' @ docId) s) = Some props"
      and "JSON_stringify rt (JObj (updated_object (toISOString rt t) fieldName val props)) = Some written"
      and "\<not> storage_accepts rt (localStorage s) (collection @ ''_'' @ docId) written"
    using that by (simp add: saveToLocalStorage_object store_json_cases)
  show ?thesis
    unfolding run
    apply (intro conjI impI)
            apply (rule frame)
           apply (subst frame, simp)
          apply (subst frame, simp)
         apply (subst frame, simp)
        apply (subst frame, simp)
       apply (simp add: stored)
      apply (simp add: stored getItem_def update_conv')
     apply (simp add: updated_object_field)
    apply (simp add: saveToLocalStorage_array store_json_cases)
    apply (simp add: saveToLocalStorage_unusable)
    apply (simp add: refused)
    apply (erule saveToLocalStorage_throw)
    done
qed

theorem C4_unauthenticated_write_witness:
  "\<not> authenticated constructor \<and>
   prior_object example_runtime (getItem (''users'' @ ''_'' @ ''u1'') constructor) = Some [] \<and>
   JSON_stringify example_runtime
     (JObj (updated_object (toISOString example_runtime 0) ''firstName'' (JStr ''Ana'') [])) =
     Some ''{\"firstName\":\"Ana\",\"_lastUpdated\":\"2024-01-01T00:00:00.000Z\"}'' \<and>
   saveFormData example_runtime 0 ''users'' ''u1'' ''firstName'' (JStr ''Ana'') constructor =
     (Return (),
      constructor\<lparr>localStorage :=
        [(''users_u1'', ''{\"firstName\":\"Ana\",\"_lastUpdated\":\"2024-01-01T00:00:00.000Z\"}'')]\<rparr>) \<and>
   map_of (updated_object (toISOString example_runtime 0) ''firstName'' (JStr ''Ana'') [])
     ''firstName'' = Some (JStr ''Ana'') \<and>
   unusable example_runtime
     (getItem (''users'' @ ''_'' @ ''u1'') (constructor\<lparr>localStorage := [(''users_u1'', ''oops'')]\<rparr>)) \<and>
   saveFormData example_runtime 0 ''users'' ''u1'' ''firstName'' (JStr ''Ana'')
     (constructor\<lparr>localStorage := [(''users_u1'', ''oops'')]\<rparr>) =
     (Throw, constructor\<lparr>localStorage := [(''users_u1'', ''oops'')]\<rparr>) \<and>
   \<not> storage_accepts full_runtime (localStorage constructor) (''users'' @ ''_'' @ ''u1'')
       ''{\"firstName\":\"Ana\",\"_lastUpdated\":\"2024-01-01T00:00:00.000Z\"}'' \<and>
   saveFormData full_runtime 0 ''users'' ''u1'' ''firstName'' (JStr ''Ana'') constructor =
     (Throw, constructor) \<and>
   parse_item example_runtime
     (getItem (''users'' @ ''_'' @ ''u1'') (constructor\<lparr>localStorage := [(''users_u1'', ''[]'')]\<rparr>)) =
     Some (JArr []) \<and>
   array_assign example_runtime [] ''firstName'' (JStr ''Ana'') = Some [] \<and>
   JSON_stringify example_runtime (JArr []) = Some ''[]'' \<and>
   saveFormData example_runtime 0 ''users'' ''u1'' ''firstName'' (JStr ''Ana'')
     (constructor\<lparr>localStorage := [(''users_u1'', ''[]'')]\<rparr>) =
     (Return (), constructor\<lparr>localStorage := [(''users_u1'', ''[]'')]\<rparr>)"
proof -
  have h: "\<not> authenticated constructor"
    by (simp add: authenticated_def constructor_def)
  have h': "\<not> authenticated (constructor\<lparr>localStorage := [(''users_u1'', ''oops'')]\<rparr>)"
    by (simp add: authenticated_def constructor_def)
  have p: "prior_object example_runtime (getItem (''users'' @ ''_'' @ ''u1'') constructor) = Some []"
    by (simp add: prior_object_def getItem_def truthy_def constructor_def)
  have p': "prior_object full_runtime (getItem (''users'' @ ''_'' @ ''u1'') constructor) = Some []"
    by (simp add: prior_object_def getItem_def truthy_def constructor_def)
  have j: "JSON_stringify example_runtime
     (JObj (updated_object (toISOString example_runtime 0) ''firstName'' (JStr ''Ana'') [])) =
     Some ''{\"firstName\":\"Ana\",\"_lastUpdated\":\"2024-01-01T00:00:00.000Z\"}''"
    by (simp add: updated_object_def set_property_def example_runtime_def example_table_def
          example_clock_def)
  have j': "JSON_stringify full_runtime
     (JObj (updated_object (toISOString full_runtime 0) ''firstName'' (JStr ''Ana'') [])) =
     Some ''{\"firstName\":\"Ana\",\"_lastUpdated\":\"2024-01-01T00:00:00.000Z\"}''"
    by (simp add: updated_object_def set_property_def full_runtime_def example_runtime_def
          example_table_def example_clock_def)
  have a: "storage_accepts example_runtime (localStorage constructor) (''users'' @ ''_'' @ ''u1'')
       ''{\"firstName\":\"Ana\",\"_lastUpdated\":\"2024-01-01T00:00:00.000Z\"}''"
    by (simp add: example_runtime_def)
  have f: "\<not> storage_accepts full_runtime (localStorage constructor) (''users'' @ ''_'' @ ''u1'')
       ''{\"firstName\":\"Ana\",\"_lastUpdated\":\"2024-01-01T00:00:00.000Z\"}''"
    by (simp add: full_runtime_def)
  have u: "unusable example_runtime
     (getItem (''users'' @ ''_'' @ ''u1'') (constructor\<lparr>localStorage := [(''users_u1'', ''oops'')]\<rparr>))"
    by (simp add: unusable_def getItem_def truthy_def parse_item_def example_runtime_def
          example_table_def)
  have stored: "saveFormData example_runtime 0 ''users'' ''u1'' ''firstName'' (JStr ''Ana'') constructor =
     (Return (),
      constructor\<lparr>localStorage := AList.update (''users'' @ ''_'' @ ''u1'')
        ''{\"firstName\":\"Ana\",\"_lastUpdated\":\"2024-01-01T00:00:00.000Z\"}''
        (localStorage constructor)\<rparr>) \<and>
     map_of (updated_object (toISOString example_runtime 0) ''firstName'' (JStr ''Ana'') [])
       ''firstName'' = Some (JStr ''Ana'')"
    using p j a
      C4_unauthenticated_write [OF h, where rt = example_runtime and t = 0
        and collection = "''users''" and docId = "''u1''" and fieldName = "''firstName''"
        and val = "JStr ''Ana''" and props = "[]"
        and written = "''{\"firstName\":\"Ana\",\"_lastUpdated\":\"2024-01-01T00:00:00.000Z\"}''"]
    by blast
  have raised: "saveFormData example_runtime 0 ''users'' ''u1'' ''firstName'' (JStr ''Ana'')
     (constructor\<lparr>localStorage := [(''users_u1'', ''oops'')]\<rparr>) =
     (Throw, constructor\<lparr>localStorage := [(''users_u1'', ''oops'')]\<rparr>)"
    using u
      C4_unauthenticated_write [OF h', where rt = example_runtime and t = 0
        and collection = "''users''" and docId = "''u1''" and fieldName = "''firstName''"
        and val = "JStr ''Ana''"]
    by blast
  have refused: "saveFormData full_runtime 0 ''users'' ''u1'' ''firstName'' (JStr ''Ana'') constructor =
     (Throw, constructor)"
    using p' j' f
      C4_unauthenticated_write [OF h, where rt = full_runtime and t = 0
        and collection = "''users''" and docId = "''u1''" and fieldName = "''firstName''"
        and val = "JStr ''Ana''" and props = "[]"
        and written = "''{\"firstName\":\"Ana\",\"_lastUpdated\":\"2024-01-01T00:00:00.000Z\"}''"]
    by blast
  have h'': "\<not> authenticated (constructor\<lparr>localStorage := [(''users_u1'', ''[]'')]\<rparr>)"
    by (simp add: authenticated_def constructor_def)
  have t: "truthy (getItem (''users'' @ ''_'' @ ''u1'')
      (constructor\<lparr>localStorage := [(''users_u1'', ''[]'')]\<rparr>))"
    by (simp add: getItem_def truthy_def)
  have q: "parse_item example_runtime
     (getItem (''users'' @ ''_'' @ ''u1'') (constructor\<lparr>localStorage := [(''users_u1'', ''[]'')]\<rparr>)) =
     Some (JArr [])"
    by (simp add: getItem_def parse_item_def example_runtime_def example_table_def)
  have e: "array_assign example_runtime [] ''firstName'' (JStr ''Ana'') = Some []"
    by (simp add: example_runtime_def)
  have k: "JSON_stringify example_runtime (JArr []) = Some ''[]''"
    by (simp add: example_runtime_def example_table_def)
  have a': "storage_accepts example_runtime
      (localStorage (constructor\<lparr>localStorage := [(''users_u1'', ''[]'')]\<rparr>))
      (''users'' @ ''_'' @ ''u1'') ''[]''"
    by (simp add: example_runtime_def)
  have array: "saveFormData example_runtime 0 ''users'' ''u1'' ''firstName'' (JStr ''Ana'')
     (constructor\<lparr>localStorage := [(''users_u1'', ''[]'')]\<rparr>) =
     (Return (),
      constructor\<lparr>localStorage := [(''users_u1'', ''[]'')]\<rparr>
        \<lparr>localStorage := AList.update (''users'' @ ''_'' @ ''u1'') ''[]''
           (localStorage (constructor\<lparr>localStorage := [(''users_u1'', ''[]'')]\<rparr>))\<rparr>)"
    using t q e k a'
      C4_unauthenticated_write [OF h'', where rt = example_runtime and t = 0
        and collection = "''users''" and docId = "''u1''" and fieldName = "''firstName''"
        and val = "JStr ''Ana''" and elems = "[]" and elems' = "[]" and written' = "''[]''"]
    by blast
  show ?thesis
    using h p j f u q e k stored raised refused array
    by (simp add: constructor_def)
qed

section \<open>Failed flushes\<close>

lemma flush_failed_status:
  "syncStatus (snd (flush_failed rt stamp w s)) = Error"
proof (cases "notifySyncListeners Error ''Sync failed'' s")
  case (Pair r s1)
  then have s1: "syncStatus s1 = Error"
    by (auto simp: notifySyncListeners_def split: prod.splits)
  have "syncStatus (snd (saveToLocalStorage rt stamp (w_collection w) (w_docId w)
          (w_fieldName w) (w_value w) s1)) = Error"
    by (subst saveToLocalStorage_frame) (simp add: s1)
  with Pair s1 show ?thesis
    by (auto simp: flush_failed_def split: completion.splits prod.splits)
qed

lemma flush_failed_stores_value:
  assumes quiet: "\<forall>l \<in> set (syncListeners s). \<not> raises l Error ''Sync failed''"
    and prior: "prior_object rt (getItem (w_collection w @ ''_'' @ w_docId w) s) = Some props"
    and ser: "JSON_stringify rt (JObj (updated_object stamp (w_fieldName w) (w_value w) props)) = Some written"
    and acc: "storage_accepts rt (localStorage s) (w_collection w @ ''_'' @ w_docId w) written"
  shows "fst (flush_failed rt stamp w s) = Return () \<and>
         localStorage (snd (flush_failed rt stamp w s)) =
           AList.update (w_collection w @ ''_'' @ w_docId w) written (localStorage s)"
proof -
  define s1 where "s1 = snd (notifySyncListeners Error ''Sync failed'' s)"
  have n: "notifySyncListeners Error ''Sync failed'' s = (Return (), s1)"
    using quiet by (simp add: s1_def notify_quiet)
  have store1: "localStorage s1 = localStorage s"
    using quiet by (simp add: s1_def notify_quiet)
  have prior1: "prior_object rt (getItem (w_collection w @ ''_'' @ w_docId w) s1) = Some props"
    using prior by (simp add: getItem_def store1)
  have sv: "saveToLocalStorage rt stamp (w_collection w) (w_docId w) (w_fieldName w) (w_value w) s1 =
          (Return (), s1\<lparr>localStorage :=
             AList.update (w_collection w @ ''_'' @ w_docId w) written (localStorage s1)\<rparr>)"
    using ser acc by (simp add: saveToLocalStorage_object [OF prior1] store_json_cases store1)
  show ?thesis
    by (simp add: flush_failed_def n sv store1)
qed

text \<open>
  C5, as stated: after every flush whose remote write fails a backlog entry
  holds the value that failed. With a listener that raises on \<open>'error'\<close>, the
  exception leaves the \<open>catch\<close> block before \<open>_saveToLocalStorage\<close> is
  reached: the status is \<open>Error\<close>, the write was sent and rejected, and the
  store is empty.
\<close>

theorem C5_listener_exception_loses_value:
  "map_of (flushing flush_awaited_fragile) 0 =
     Some \<lparr>w_collection = ''users'', w_docId = ''u1'', w_fieldName = ''firstName'',
            w_value = JStr ''Ana''\<rparr> \<and>
   fst (settle example_runtime 600 0 False flush_awaited_fragile) = Throw \<and>
   syncStatus (snd (settle example_runtime 600 0 False flush_awaited_fragile)) = Error \<and>
   localStorage (snd (settle example_runtime 600 0 False flush_awaited_fragile)) = []"
  by (simp add: flush_awaited_fragile_def settle_def advance_def saveFormData_def
      addSyncListener_def signed_in_def constructor_def notifySyncListeners_def
      authenticated_def setTimeout_def write_key_def throws_on_error_def flush_end_def
      flush_failed_def user_path_def flush_payload_def set_property_def example_clock_def
      example_runtime_def)

text \<open>
  C5, amended: for every debounced flush whose remote write fails, immediately
  afterwards the sync status is \<open>Error\<close>. When no registered listener throws
  on the \<open>'error'\<close> notification, the store holds nothing, the empty text or
  a text that \<open>JSON.parse\<close> reads as an object under the key
  \<open>collection_docId\<close>, \<open>JSON.stringify\<close> gives a text for the updated
  object and the store accepts that text, the flush returns and the text
  stored under that key is the serialisation of the updated object; when
  moreover the field name is neither \<open>_lastUpdated\<close> nor \<open>__proto__\<close>,
  the property \<open>fieldName\<close> of that object is exactly the value captured for
  that flush. The value is held by the object that is serialised; what the
  stored text shows of it is what \<open>JSON.stringify\<close> writes.
\<close>

theorem C5_failed_flush:
  assumes "map_of (flushing s) i = Some w"
  shows "syncStatus (snd (settle rt t i False s)) = Error \<and>
         ((\<forall>l \<in> set (syncListeners s). \<not> raises l Error ''Sync failed'') \<and>
          prior_object rt (getItem (w_collection w @ ''_'' @ w_docId w) s) = Some props \<and>
          JSON_stringify rt
            (JObj (updated_object (toISOString rt t) (w_fieldName w) (w_value w) props)) = Some written \<and>
          storage_accepts rt (localStorage s) (w_collection w @ ''_'' @ w_docId w) written \<longrightarrow>
            fst (settle rt t i False s) = Return () \<and>
            localStorage (snd (settle rt t i False s)) =
              AList.update (w_collection w @ ''_'' @ w_docId w) written (localStorage s) \<and>
            getItem (w_collection w @ ''_'' @ w_docId w) (snd (settle rt t i False s)) = Some written \<and>
            (w_fieldName w \<noteq> ''_lastUpdated'' \<and> w_fieldName w \<noteq> ''__proto__'' \<longrightarrow>
               map_of (updated_object (toISOString rt t) (w_fieldName w) (w_value w) props)
                 (w_fieldName w) = Some (w_value w)))"
proof -
  have run: "settle rt t i False s =
               flush_failed rt (toISOString rt t) w (s\<lparr>flushing := AList.delete i (flushing s)\<rparr>)"
    using assms by (simp add: settle_def flush_end_def)
  show ?thesis
    unfolding run
    using flush_failed_status [of rt "toISOString rt t" w "s\<lparr>flushing := AList.delete i (flushing s)\<rparr>"]
      flush_failed_stores_value [where s = "s\<lparr>flushing := AList.delete i (flushing s)\<rparr>"
        and w = w and rt = rt and stamp = "toISOString rt t" and props = props and written = written]
    by (simp add: getItem_def update_conv' updated_object_field)
qed

theorem C5_failed_flush_witness:
  "map_of (flushing flush_awaited) 0 =
     Some \<lparr>w_collection = ''users'', w_docId = ''u1'', w_fieldName = ''firstName'',
            w_value = JStr ''Ana''\<rparr> \<and>
   prior_object example_runtime (getItem (''users'' @ ''_'' @ ''u1'') flush_awaited) = Some [] \<and>
   JSON_stringify example_runtime
     (JObj (updated_object (toISOString example_runtime 600) ''firstName'' (JStr ''Ana'') [])) =
     Some ''{\"firstName\":\"Ana\",\"_lastUpdated\":\"2024-01-01T00:00:00.000Z\"}'' \<and>
   syncStatus (snd (settle example_runtime 600 0 False flush_awaited)) = Error \<and>
   fst (settle example_runtime 600 0 False flush_awaited) = Return () \<and>
   localStorage (snd (settle example_runtime 600 0 False flush_awaited)) =
     [(''users_u1'', ''{\"firstName\":\"Ana\",\"_lastUpdated\":\"2024-01-01T00:00:00.000Z\"}'')] \<and>
   map_of (updated_object (toISOString example_runtime 600) ''firstName'' (JStr ''Ana'') [])
     ''firstName'' = Some (JStr ''Ana'')"
proof -
  note eval = flush_awaited_def advance_def saveFormData_def signed_in_def constructor_def
        notifySyncListeners_def authenticated_def setTimeout_def write_key_def user_path_def
        flush_payload_def set_property_def example_runtime_def example_clock_def
  have h: "map_of (flushing flush_awaited) 0 =
     Some \<lparr>w_collection = ''users'', w_docId = ''u1'', w_fieldName = ''firstName'',
            w_value = JStr ''Ana''\<rparr>"
    by (simp add: eval)
  have q: "\<forall>l \<in> set (syncListeners flush_awaited). \<not> raises l Error ''Sync failed''"
    by (simp add: eval)
  have store: "localStorage flush_awaited = []"
    by (simp add: eval)
  have p: "prior_object example_runtime (getItem (''users'' @ ''_'' @ ''u1'') flush_awaited) = Some []"
    by (simp add: store prior_object_def getItem_def truthy_def)
  have j: "JSON_stringify example_runtime
     (JObj (updated_object (toISOString example_runtime 600) ''firstName'' (JStr ''Ana'') [])) =
     Some ''{\"firstName\":\"Ana\",\"_lastUpdated\":\"2024-01-01T00:00:00.000Z\"}''"
    by (simp add: updated_object_def set_property_def example_runtime_def example_table_def
          example_clock_def)
  have a: "storage_accepts example_runtime (localStorage flush_awaited) (''users'' @ ''_'' @ ''u1'')
       ''{\"firstName\":\"Ana\",\"_lastUpdated\":\"2024-01-01T00:00:00.000Z\"}''"
    by (simp add: example_runtime_def)
  show ?thesis
    using h p j q a
      C5_failed_flush [OF h, where rt = example_runtime and t = 600 and props = "[]"
        and written = "''{\"firstName\":\"Ana\",\"_lastUpdated\":\"2024-01-01T00:00:00.000Z\"}''"]
    by (simp add: store)
qed

section \<open>Reconciliation\<close>

text \<open>
  Two facts about every pass. A pass that returns does so with \<open>true\<close> and
  the status \<open>Synced\<close>, also when the write it awaited last was rejected.
  A key other than \<open>formData\<close>, \<open>progressData\<close> and \<open>settings\<close> whose text
  parses is removed with nothing sent.
\<close>

lemma pass_end_synced:
  assumes "fst (sync_continue p (keys, s)) = Return b"
  shows "b \<and> syncStatus (snd (sync_continue p (keys, s))) = Synced"
  using assms
  by (cases keys) (auto simp: notifySyncListeners_def split: prod.splits if_splits)

lemma rejected_write_still_synced:
  assumes "fst (sync_settle rt p False s) = Return b"
  shows "b \<and> syncStatus (snd (sync_settle rt p False s)) = Synced"
proof (cases "map_of (reconciling s) p")
  case None
  with assms show ?thesis by (simp add: sync_settle_def)
next
  case (Some ks)
  show ?thesis
  proof (cases ks)
    case Nil
    with Some assms show ?thesis by (simp add: sync_settle_def)
  next
    case (Cons key keys)
    obtain ks' s' where l:
      "sync_loop rt keys (s\<lparr>reconciling := AList.delete p (reconciling s)\<rparr>) = (ks', s')"
      by (cases "sync_loop rt keys (s\<lparr>reconciling := AList.delete p (reconciling s)\<rparr>)")
    with Some Cons assms pass_end_synced [of p ks' s' b] show ?thesis
      by (simp add: sync_settle_def)
  qed
qed

lemma prefix_key_removed_unsent:
  assumes "parse_item rt (getItem key s) = Some data"
    and "key \<noteq> ''formData''" and "key \<noteq> ''progressData''" and "key \<noteq> ''settings''"
  shows "sync_loop rt (key # keys) s = sync_loop rt keys (removeItem key s)"
  using assms by (simp add: sync_fields_def)

text \<open>
  C1, at a failing input: the backlog holds one entry (N = 1), under the
  key \<open>formData\<close>, and the gateway rejects its write (M = 0). The entry
  stays, as the claim says, but the pass ends with the status \<open>Synced\<close> and
  returns \<open>true\<close>, where the claim has \<open>Synced\<close> only for M = N.
\<close>

theorem C1_synced_after_rejected_write:
  "fst (forceSync example_runtime backlog_formData) = Pending \<and>
   fst (sync_settle example_runtime 0 False (snd (forceSync example_runtime backlog_formData))) =
     Return True \<and>
   syncStatus (snd (sync_settle example_runtime 0 False
     (snd (forceSync example_runtime backlog_formData)))) = Synced \<and>
   localStorage (snd (sync_settle example_runtime 0 False
     (snd (forceSync example_runtime backlog_formData)))) =
     [(''formData'', ''{\"firstName\":\"Ana\"}'')]"
  by (simp add: forceSync_def sync_settle_def backlog_formData_def signed_in_def constructor_def
      authenticated_def notifySyncListeners_def localKeys_def is_local_key_def startsWith_def
      getItem_def parse_item_def sync_fields_def user_path_def removeItem_def
      example_runtime_def example_table_def)

text \<open>
  C2, at a failing input: a field change recorded without an identity is kept
  under the key \<open>forms_u1\<close>; after the user \<open>u1\<close> has signed in,
  \<open>forceSync\<close> removes that entry although it has made no remote write at
  all.
\<close>

theorem C2_entry_removed_without_write:
  "localStorage (snd (saveFormData example_runtime 0 ''forms'' ''u1'' ''firstName'' (JStr ''Ana'')
       constructor)) =
     [(''forms_u1'', ''{\"firstName\":\"Ana\",\"_lastUpdated\":\"2024-01-01T00:00:00.000Z\"}'')] \<and>
   fst (forceSync example_runtime
          ((snd (saveFormData example_runtime 0 ''forms'' ''u1'' ''firstName'' (JStr ''Ana'')
             constructor))\<lparr>userId := Some ''u1''\<rparr>)) = Return True \<and>
   localStorage (snd (forceSync example_runtime
          ((snd (saveFormData example_runtime 0 ''forms'' ''u1'' ''firstName'' (JStr ''Ana'')
             constructor))\<lparr>userId := Some ''u1''\<rparr>))) = [] \<and>
   gatewayLog (snd (forceSync example_runtime
          ((snd (saveFormData example_runtime 0 ''forms'' ''u1'' ''firstName'' (JStr ''Ana'')
             constructor))\<lparr>userId := Some ''u1''\<rparr>))) = []"
  by (simp add: forceSync_def saveFormData_def saveToLocalStorage_def store_json_def setItem_def
      truthy_def parse_item_def set_property_def example_clock_def constructor_def
      authenticated_def notifySyncListeners_def localKeys_def is_local_key_def startsWith_def
      getItem_def sync_fields_def user_path_def removeItem_def example_runtime_def
      example_table_def)

text \<open>
  The passes in flight have no influence on a pass; the loop of a pass changes
  neither the status nor the record of listener calls; and a call answers
  \<open>false\<close> exactly when no identity is present.
\<close>

lemma sync_loop_reconciling:
  "sync_loop rt keys (s\<lparr>reconciling := passes\<rparr>) =
     (fst (sync_loop rt keys s), (snd (sync_loop rt keys s))\<lparr>reconciling := passes\<rparr>)"
proof (induction keys arbitrary: s)
  case Nil
  show ?case by simp
next
  case (Cons key keys)
  have rm: "removeItem key (s\<lparr>reconciling := passes\<rparr>) = (removeItem key s)\<lparr>reconciling := passes\<rparr>"
    by (simp add: removeItem_def)
  show ?case
    by (simp add: getItem_def user_path_def rm Cons.IH split: option.splits)
qed

lemma sync_continue_reconciling:
  "fst (sync_continue p (keys, s\<lparr>reconciling := passes\<rparr>)) = fst (sync_continue p (keys, s)) \<and>
   gatewayLog (snd (sync_continue p (keys, s\<lparr>reconciling := passes\<rparr>))) =
     gatewayLog (snd (sync_continue p (keys, s))) \<and>
   localStorage (snd (sync_continue p (keys, s\<lparr>reconciling := passes\<rparr>))) =
     localStorage (snd (sync_continue p (keys, s)))"
  by (cases keys) (simp_all add: notifySyncListeners_def split: prod.splits)

lemma sync_loop_notified:
  "syncStatus (snd (sync_loop rt keys s)) = syncStatus s \<and>
   listenerLog (snd (sync_loop rt keys s)) = listenerLog s"
proof (induction keys arbitrary: s)
  case Nil
  show ?case by simp
next
  case (Cons key keys)
  show ?case
    using Cons.IH [of s] Cons.IH [of "removeItem key s"]
    by (simp add: removeItem_def split: option.splits)
qed

lemma sync_continue_not_false: "fst (sync_continue p x) \<noteq> Return False"
proof (cases x)
  case (Pair keys s)
  then show ?thesis
    by (cases keys) (auto simp: notifySyncListeners_def split: prod.splits if_splits)
qed

lemma forceSync_false_iff: "fst (forceSync rt s) = Return False \<longleftrightarrow> \<not> authenticated s"
proof (cases "authenticated s")
  case False
  then show ?thesis by (simp add: forceSync_def)
next
  case True
  have "fst (forceSync rt s) \<noteq> Return False"
  proof (cases "notifySyncListeners Syncing ''Syncing...'' s")
    case (Pair r s1)
    show ?thesis
    proof (cases r)
      case (Return u)
      with Pair True show ?thesis
        by (simp add: forceSync_def sync_continue_not_false)
    next
      case Throw
      with Pair True show ?thesis by (simp add: forceSync_def)
    next
      case Pending
      with Pair True show ?thesis by (simp add: forceSync_def)
    qed
  qed
  with True show ?thesis by simp
qed

text \<open>
  C6, as stated: a call made while an earlier call is in flight performs no
  further gateway call. The first call is suspended on its write of
  \<open>formData\<close>; the second call sends the same write again and is suspended
  beside it.
\<close>

theorem C6_second_call_writes_again:
  "fst (forceSync example_runtime backlog_formData) = Pending \<and>
   gatewayLog (snd (forceSync example_runtime backlog_formData)) =
     [(Reconcile ''formData'', ''users/u1'', [(''forms'', JObj [(''firstName'', JStr ''Ana'')])])] \<and>
   reconciling (snd (forceSync example_runtime backlog_formData)) = [(0, [''formData''])] \<and>
   fst (forceSync example_runtime (snd (forceSync example_runtime backlog_formData))) = Pending \<and>
   gatewayLog (snd (forceSync example_runtime (snd (forceSync example_runtime backlog_formData)))) =
     [(Reconcile ''formData'', ''users/u1'', [(''forms'', JObj [(''firstName'', JStr ''Ana'')])]),
      (Reconcile ''formData'', ''users/u1'', [(''forms'', JObj [(''firstName'', JStr ''Ana'')])])] \<and>
   reconciling (snd (forceSync example_runtime (snd (forceSync example_runtime backlog_formData)))) =
     [(0, [''formData'']), (1, [''formData''])]"
  by (simp add: forceSync_def backlog_formData_def signed_in_def constructor_def
      authenticated_def notifySyncListeners_def localKeys_def is_local_key_def startsWith_def
      getItem_def parse_item_def sync_fields_def user_path_def removeItem_def
      example_runtime_def example_table_def)

text \<open>
  C6, amended: a call of \<open>forceSync\<close> returns \<open>false\<close> exactly when no
  identity is present, and then it is a no-op: nothing is changed. When an
  identity is present the call is never a no-op: it stores the status
  \<open>'syncing'\<close> and calls the listeners with it before anything else, and
  its status afterwards is \<open>Syncing\<close> or \<open>Synced\<close>. There is no
  re-entrancy guard: a call made while earlier calls are in flight returns
  what a call made with none in flight returns, makes the same gateway calls
  and has the same effect on the local store. In particular, when an identity
  is present, no listener throws on the \<open>'syncing'\<close> notification and the
  first fallback key holds a text that parses and for which a write is sent,
  the call sends that write and is suspended on it beside the passes already
  in flight.
\<close>

theorem C6_no_reentrancy_guard:
  "(fst (forceSync rt s) = Return False \<longleftrightarrow> \<not> authenticated s) \<and>
   (\<not> authenticated s \<longrightarrow> forceSync rt s = (Return False, s)) \<and>
   (authenticated s \<longrightarrow>
      syncStatus (snd (forceSync rt s)) \<in> {Syncing, Synced} \<and>
      (\<exists>calls. listenerLog (snd (forceSync rt s)) =
         listenerLog s @
         map (\<lambda>l. (listener_id l, Syncing, ''Syncing...''))
           (invoked (syncListeners s) Syncing ''Syncing...'') @ calls)) \<and>
   fst (forceSync rt (s\<lparr>reconciling := passes\<rparr>)) = fst (forceSync rt s) \<and>
   gatewayLog (snd (forceSync rt (s\<lparr>reconciling := passes\<rparr>))) = gatewayLog (snd (forceSync rt s)) \<and>
   localStorage (snd (forceSync rt (s\<lparr>reconciling := passes\<rparr>))) =
     localStorage (snd (forceSync rt s)) \<and>
   (authenticated s \<and> (\<forall>l \<in> set (syncListeners s). \<not> raises l Syncing ''Syncing...'') \<and>
    localKeys s = key # keys \<and> parse_item rt (getItem key s) = Some data \<and>
    sync_fields key data = Some payload \<longrightarrow>
      fst (forceSync rt s) = Pending \<and>
      gatewayLog (snd (forceSync rt s)) = gatewayLog s @ [(Reconcile key, user_path s, payload)] \<and>
      reconciling (snd (forceSync rt s)) = reconciling s @ [(nextPass s, key # keys)])"
proof -
  have unauth: "\<not> authenticated s \<longrightarrow> forceSync rt s = (Return False, s)"
    by (simp add: forceSync_def)
  have notified: "authenticated s \<longrightarrow>
      syncStatus (snd (forceSync rt s)) \<in> {Syncing, Synced} \<and>
      (\<exists>calls. listenerLog (snd (forceSync rt s)) =
         listenerLog s @
         map (\<lambda>l. (listener_id l, Syncing, ''Syncing...''))
           (invoked (syncListeners s) Syncing ''Syncing...'') @ calls)"
  proof
    assume auth: "authenticated s"
    define s1 where "s1 = snd (notifySyncListeners Syncing ''Syncing...'' s)"
    have s1: "syncStatus s1 = Syncing"
      "listenerLog s1 = listenerLog s @
         map (\<lambda>l. (listener_id l, Syncing, ''Syncing...''))
           (invoked (syncListeners s) Syncing ''Syncing...'')"
      "nextPass s1 = nextPass s" "localStorage s1 = localStorage s"
      by (simp_all add: s1_def notifySyncListeners_def call_listeners_invoked)
    show "syncStatus (snd (forceSync rt s)) \<in> {Syncing, Synced} \<and>
      (\<exists>calls. listenerLog (snd (forceSync rt s)) =
         listenerLog s @
         map (\<lambda>l. (listener_id l, Syncing, ''Syncing...''))
           (invoked (syncListeners s) Syncing ''Syncing...'') @ calls)"
    proof (cases "\<exists>l \<in> set (syncListeners s). raises l Syncing ''Syncing...''")
      case True
      then have "forceSync rt s = (Throw, s1)"
        using auth by (simp add: forceSync_def s1_def notifySyncListeners_def call_listeners_invoked)
      then show ?thesis by (simp add: s1)
    next
      case False
      then have run: "forceSync rt s =
          sync_continue (nextPass s)
            (sync_loop rt (localKeys s) (s1\<lparr>nextPass := Suc (nextPass s)\<rparr>))"
        using auth
        by (simp add: forceSync_def s1_def notifySyncListeners_def call_listeners_invoked
              localKeys_def)
      obtain ks s2 where loop: "sync_loop rt (localKeys s) (s1\<lparr>nextPass := Suc (nextPass s)\<rparr>) = (ks, s2)"
        by (cases "sync_loop rt (localKeys s) (s1\<lparr>nextPass := Suc (nextPass s)\<rparr>)")
      have s2: "syncStatus s2 = Syncing" "listenerLog s2 = listenerLog s1"
        using sync_loop_notified [of rt "localKeys s" "s1\<lparr>nextPass := Suc (nextPass s)\<rparr>"]
        by (simp_all add: loop s1)
      show ?thesis
        unfolding run loop
        by (cases ks) (auto simp: s2 s1 notifySyncListeners_def split: prod.splits)
    qed
  qed
  have indep: "fst (forceSync rt (s\<lparr>reconciling := passes\<rparr>)) = fst (forceSync rt s) \<and>
   gatewayLog (snd (forceSync rt (s\<lparr>reconciling := passes\<rparr>))) = gatewayLog (snd (forceSync rt s)) \<and>
   localStorage (snd (forceSync rt (s\<lparr>reconciling := passes\<rparr>))) =
     localStorage (snd (forceSync rt s))"
  proof (cases "authenticated s")
    case False
    then show ?thesis by (simp add: forceSync_def authenticated_def)
  next
    case True
    show ?thesis
    proof (cases "\<exists>l \<in> set (syncListeners s). raises l Syncing ''Syncing...''")
      case True
      with \<open>authenticated s\<close> show ?thesis
        by (simp add: forceSync_def authenticated_def notifySyncListeners_def call_listeners_invoked)
    next
      case False
      define s1 where
        "s1 = (snd (notifySyncListeners Syncing ''Syncing...'' s))\<lparr>nextPass := Suc (nextPass s)\<rparr>"
      have a: "forceSync rt s = sync_continue (nextPass s) (sync_loop rt (localKeys s) s1)"
        using False \<open>authenticated s\<close>
        by (simp add: forceSync_def notify_quiet s1_def localKeys_def)
      have swap: "(snd (notifySyncListeners Syncing ''Syncing...'' (s\<lparr>reconciling := passes\<rparr>)))
                     \<lparr>nextPass := Suc (nextPass s)\<rparr> = s1\<lparr>reconciling := passes\<rparr>"
        using False by (simp add: notify_quiet s1_def)
      have b: "forceSync rt (s\<lparr>reconciling := passes\<rparr>) =
                 sync_continue (nextPass s) (sync_loop rt (localKeys s) (s1\<lparr>reconciling := passes\<rparr>))"
        using False \<open>authenticated s\<close>
        unfolding swap [symmetric]
        by (simp add: forceSync_def notify_quiet localKeys_def authenticated_def)
      show ?thesis
        unfolding a b sync_loop_reconciling
        using sync_continue_reconciling [where p = "nextPass s"
            and keys = "fst (sync_loop rt (localKeys s) s1)"
            and s = "snd (sync_loop rt (localKeys s) s1)" and passes = passes]
        by simp
    qed
  qed
  have first: "authenticated s \<and> (\<forall>l \<in> set (syncListeners s). \<not> raises l Syncing ''Syncing...'') \<and>
    localKeys s = key # keys \<and> parse_item rt (getItem key s) = Some data \<and>
    sync_fields key data = Some payload \<longrightarrow>
      fst (forceSync rt s) = Pending \<and>
      gatewayLog (snd (forceSync rt s)) = gatewayLog s @ [(Reconcile key, user_path s, payload)] \<and>
      reconciling (snd (forceSync rt s)) = reconciling s @ [(nextPass s, key # keys)]"
    by (simp add: forceSync_def notify_quiet localKeys_def getItem_def user_path_def)
  from forceSync_false_iff unauth notified indep first show ?thesis by blast
qed

theorem C6_no_reentrancy_guard_witness:
  "authenticated (snd (forceSync example_runtime backlog_formData)) \<and>
   syncListeners (snd (forceSync example_runtime backlog_formData)) = [] \<and>
   reconciling (snd (forceSync example_runtime backlog_formData)) = [(0, [''formData''])] \<and>
   localKeys (snd (forceSync example_runtime backlog_formData)) = [''formData''] \<and>
   parse_item example_runtime
       (getItem ''formData'' (snd (forceSync example_runtime backlog_formData))) =
     Some (JObj [(''firstName'', JStr ''Ana'')]) \<and>
   sync_fields ''formData'' (JObj [(''firstName'', JStr ''Ana'')]) =
     Some [(''forms'', JObj [(''firstName'', JStr ''Ana'')])] \<and>
   fst (forceSync example_runtime (snd (forceSync example_runtime backlog_formData))) = Pending \<and>
   fst (forceSync example_runtime (snd (forceSync example_runtime backlog_formData))) \<noteq>
     Return False \<and>
   gatewayLog (snd (forceSync example_runtime (snd (forceSync example_runtime backlog_formData)))) =
     gatewayLog (snd (forceSync example_runtime backlog_formData)) @
     [(Reconcile ''formData'', ''users/u1'', [(''forms'', JObj [(''firstName'', JStr ''Ana'')])])]"
proof -
  define s1 where "s1 = backlog_formData\<lparr>syncStatus := Syncing, nextPass := 1,
        gatewayLog := [(Reconcile ''formData'', ''users/u1'',
                        [(''forms'', JObj [(''firstName'', JStr ''Ana'')])])],
        reconciling := [(0, [''formData''])]\<rparr>"
  have s1: "snd (forceSync example_runtime backlog_formData) = s1"
    unfolding s1_def
    by (simp add: forceSync_def backlog_formData_def signed_in_def constructor_def
      authenticated_def notifySyncListeners_def localKeys_def is_local_key_def startsWith_def
      getItem_def parse_item_def sync_fields_def user_path_def
      example_runtime_def example_table_def)
  have h1: "authenticated s1"
    by (simp add: s1_def backlog_formData_def signed_in_def constructor_def authenticated_def)
  have h2: "syncListeners s1 = []"
    by (simp add: s1_def backlog_formData_def signed_in_def constructor_def)
  have h3: "localKeys s1 = ''formData'' # []"
    by (simp add: s1_def backlog_formData_def signed_in_def constructor_def localKeys_def
          is_local_key_def startsWith_def)
  have h4: "parse_item example_runtime (getItem ''formData'' s1) =
      Some (JObj [(''firstName'', JStr ''Ana'')])"
    by (simp add: s1_def backlog_formData_def signed_in_def constructor_def getItem_def
          parse_item_def example_runtime_def example_table_def)
  have h5: "sync_fields ''formData'' (JObj [(''firstName'', JStr ''Ana'')]) =
      Some [(''forms'', JObj [(''firstName'', JStr ''Ana'')])]"
    by (simp add: sync_fields_def)
  have path: "user_path s1 = ''users/u1''"
    by (simp add: s1_def backlog_formData_def signed_in_def constructor_def user_path_def)
  have rec: "reconciling s1 = [(0, [''formData''])]"
    by (simp add: s1_def)
  have quiet: "\<forall>l \<in> set (syncListeners s1). \<not> raises l Syncing ''Syncing...''"
    by (simp add: h2)
  have run: "fst (forceSync example_runtime s1) = Pending \<and>
      gatewayLog (snd (forceSync example_runtime s1)) =
        gatewayLog s1 @ [(Reconcile ''formData'', user_path s1,
                          [(''forms'', JObj [(''firstName'', JStr ''Ana'')])])]"
    using C6_no_reentrancy_guard [where rt = example_runtime and s = s1
        and key = "''formData''" and keys = "[]"
        and data = "JObj [(''firstName'', JStr ''Ana'')]"
        and payload = "[(''forms'', JObj [(''firstName'', JStr ''Ana'')])]"]
      h1 quiet h3 h4 h5
    by blast
  show ?thesis
    unfolding s1 using h1 h2 h3 h4 h5 rec run by (simp add: path)
qed

section \<open>Debouncing\<close>

lemma user_path_cong: "userId s' = userId s \<Longrightarrow> user_path s' = user_path s"
  by (simp add: user_path_def)

lemma timer_call_cong: "userId s' = userId s \<Longrightarrow> timer_call rt s' = timer_call rt s"
  by (simp add: timer_call_def fun_eq_iff user_path_def)

lemma run_timer_eq:
  "run_timer rt x s =
     s\<lparr>timers := filter (\<lambda>y. fst y \<noteq> fst x) (timers s),
       gatewayLog := gatewayLog s @ [timer_call rt s x],
       flushing := flushing s @ [(fst x, snd (snd x))]\<rparr>"
  by (cases x) (simp add: timer_call_def)

lemma fold_run_timer:
  "fold (run_timer rt) xs s =
     s\<lparr>timers := filter (\<lambda>y. fst y \<notin> fst ` set xs) (timers s),
       gatewayLog := gatewayLog s @ map (timer_call rt s) xs,
       flushing := flushing s @ map (\<lambda>x. (fst x, snd (snd x))) xs\<rparr>"
proof (induction xs arbitrary: s)
  case Nil
  show ?case by simp
next
  case (Cons x xs)
  have tc: "timer_call rt (run_timer rt x s) = timer_call rt s"
    by (rule timer_call_cong) (simp add: run_timer_eq)
  have fl: "filter (\<lambda>y. fst y \<notin> fst ` set xs) (filter (\<lambda>y. fst y \<noteq> fst x) (timers s)) =
            filter (\<lambda>y. fst y \<notin> fst ` set (x # xs)) (timers s)"
    by (auto intro: filter_cong)
  show ?case
    by (simp add: Cons.IH tc del: run_timer.simps) (simp add: run_timer_eq fl del: run_timer.simps)
qed

lemma advance_eq:
  "advance rt t s =
     s\<lparr>timers := filter (\<lambda>y. fst y \<notin> fst ` set (due_timers t s)) (timers s),
       gatewayLog := gatewayLog s @ map (timer_call rt s) (due_timers t s),
       flushing := flushing s @ map (\<lambda>x. (fst x, snd (snd x))) (due_timers t s)\<rparr>"
  by (simp add: advance_def fold_run_timer due_timers_def)

lemma key_flushes_advance_tidy:
  assumes "tidy key t s"
  shows "key_flushes key (advance rt t s) = key_flushes key s"
proof -
  have "x \<in> set (due_timers t s) \<Longrightarrow> write_key (snd (snd x)) \<noteq> key" for x
    using assms by (auto simp: tidy_def due_timers_def)
  then have "filter (\<lambda>c. fst c = Flush key) (map (timer_call rt s) (due_timers t s)) = []"
    by (auto simp: filter_empty_conv timer_call_def)
  then show ?thesis by (simp add: key_flushes_def advance_eq)
qed

lemma tidy_advance:
  assumes "tidy key t s"
  shows "tidy key t (advance rt t s)"
  using assms by (auto simp: tidy_def advance_eq distinct_map_filter)

lemma saveFormData_quiet:
  assumes "authenticated s"
    and "\<forall>l \<in> set (syncListeners s). \<not> raises l Syncing ''Saving...''"
  shows "saveFormData rt t c d f v s =
     (Return (),
      s\<lparr>syncStatus := Syncing,
        listenerLog := listenerLog s @
          map (\<lambda>l. (listener_id l, Syncing, ''Saving...'')) (filter callable (syncListeners s)),
        timers :=
          (case pendingWrites s (c @ ''.'' @ d @ ''.'' @ f) of
             Some i \<Rightarrow> filter (\<lambda>x. fst x \<noteq> i) (timers s)
           | None \<Rightarrow> timers s) @
          [(nextTimer s, t + writeDebounceMs s,
            \<lparr>w_collection = c, w_docId = d, w_fieldName = f, w_value = v\<rparr>)],
        nextTimer := Suc (nextTimer s),
        pendingWrites := (pendingWrites s)(c @ ''.'' @ d @ ''.'' @ f \<mapsto> nextTimer s)\<rparr>)"
  using assms
  by (cases "pendingWrites s (c @ ''.'' @ d @ ''.'' @ f)")
     (simp_all add: saveFormData_def notify_quiet write_key_def clearTimeout_def setTimeout_def)

lemma armed_tidy:
  assumes "armed key due w s" and "t < due"
  shows "tidy key t s"
proof -
  from assms(1) obtain i where i: "key_timers key s = [(i, due, w)]" "pendingWrites s key = Some i"
    by (auto simp: armed_def)
  have "x = (i, due, w)" if "x \<in> set (timers s)" "write_key (snd (snd x)) = key" for x
  proof -
    from that have "x \<in> set (key_timers key s)" by (simp add: key_timers_def)
    then show ?thesis by (simp add: i)
  qed
  then show ?thesis
    using assms i by (auto simp: tidy_def armed_def)
qed

lemma call_arms:
  fixes rt :: runtime and v :: jsvalue
  assumes auth: "authenticated s"
    and quiet: "\<forall>l \<in> set (syncListeners s). \<not> raises l Syncing ''Saving...''"
    and tidy: "tidy (c @ ''.'' @ d @ ''.'' @ f) t s"
  defines "s' \<equiv> snd (saveFormData rt t c d f v (advance rt t s))"
  shows "armed (c @ ''.'' @ d @ ''.'' @ f) (t + writeDebounceMs s)
           \<lparr>w_collection = c, w_docId = d, w_fieldName = f, w_value = v\<rparr> s'"
    and "key_flushes (c @ ''.'' @ d @ ''.'' @ f) s' = key_flushes (c @ ''.'' @ d @ ''.'' @ f) s"
    and "userId s' = userId s"
    and "syncListeners s' = syncListeners s"
    and "writeDebounceMs s' = writeDebounceMs s"
proof -
  let ?key = "c @ ''.'' @ d @ ''.'' @ f"
  let ?w = "\<lparr>w_collection = c, w_docId = d, w_fieldName = f, w_value = v\<rparr>"
  define a where "a = advance rt t s"
  have a_fields: "userId a = userId s" "syncListeners a = syncListeners s"
    "writeDebounceMs a = writeDebounceMs s" "pendingWrites a = pendingWrites s"
    "nextTimer a = nextTimer s"
    by (simp_all add: a_def advance_eq)
  have a_auth: "authenticated a" using auth by (simp add: authenticated_def a_fields)
  have a_quiet: "\<forall>l \<in> set (syncListeners a). \<not> raises l Syncing ''Saving...''"
    using quiet by (simp add: a_fields)
  have a_tidy: "tidy ?key t a" unfolding a_def by (rule tidy_advance [OF tidy])
  have a_flushes: "key_flushes ?key a = key_flushes ?key s"
    unfolding a_def by (rule key_flushes_advance_tidy [OF tidy])
  define kept where "kept = (case pendingWrites a ?key of
             Some i \<Rightarrow> filter (\<lambda>x. fst x \<noteq> i) (timers a)
           | None \<Rightarrow> timers a)"
  have s': "s' = a\<lparr>syncStatus := Syncing,
        listenerLog := listenerLog a @
          map (\<lambda>l. (listener_id l, Syncing, ''Saving...'')) (filter callable (syncListeners a)),
        timers := kept @ [(nextTimer a, t + writeDebounceMs a, ?w)],
        nextTimer := Suc (nextTimer a),
        pendingWrites := (pendingWrites a)(?key \<mapsto> nextTimer a)\<rparr>"
    unfolding s'_def a_def [symmetric] kept_def
    by (simp add: saveFormData_quiet [OF a_auth a_quiet])
  have kept_sub: "set kept \<subseteq> set (timers a)"
    by (auto simp: kept_def split: option.splits)
  have kept_distinct: "distinct (map fst kept)"
    using a_tidy by (auto simp: kept_def tidy_def distinct_map_filter split: option.splits)
  have kept_below: "\<forall>x \<in> set kept. fst x < nextTimer a"
    using a_tidy kept_sub by (auto simp: tidy_def)
  have kept_key: "filter (\<lambda>x. write_key (snd (snd x)) = ?key) kept = []"
  proof -
    have "write_key (snd (snd x)) \<noteq> ?key" if "x \<in> set kept" for x
    proof
      assume k: "write_key (snd (snd x)) = ?key"
      from that kept_sub have "x \<in> set (timers a)" by auto
      with a_tidy k have p: "pendingWrites a ?key = Some (fst x)" by (simp add: tidy_def)
      with that show False by (simp add: kept_def)
    qed
    then show ?thesis by (auto simp: filter_empty_conv)
  qed
  show "armed ?key (t + writeDebounceMs s) ?w s'"
    unfolding armed_def s'
    using kept_distinct kept_below kept_key
    by (auto simp: key_timers_def write_key_def a_fields)
  show "key_flushes ?key s' = key_flushes ?key s"
    using a_flushes by (simp add: s' key_flushes_def)
  show "userId s' = userId s" "syncListeners s' = syncListeners s"
    "writeDebounceMs s' = writeDebounceMs s"
    by (simp_all add: s' a_fields)
qed

lemma armed_fires:
  assumes "armed key due w s" and "due \<le> T"
  shows "key_flushes key (advance rt T s) =
           key_flushes key s @ [(Flush key, user_path s, flush_payload (toISOString rt due) w)]"
proof -
  from assms(1) obtain i where i: "key_timers key s = [(i, due, w)]"
    by (auto simp: armed_def)
  have k: "write_key w = key"
  proof -
    have "(i, due, w) \<in> set (key_timers key s)" by (simp add: i)
    then show ?thesis by (simp add: key_timers_def)
  qed
  have "filter (\<lambda>x. write_key (snd (snd x)) = key) (due_timers T s) =
        sort_key (\<lambda>x. fst (snd x)) (filter (\<lambda>x. fst (snd x) \<le> T) (key_timers key s))"
    by (simp add: due_timers_def filter_sort key_timers_def conj_commute)
  also have "\<dots> = [(i, due, w)]" using assms(2) by (simp add: i)
  finally have d: "filter (\<lambda>x. write_key (snd (snd x)) = key) (due_timers T s) = [(i, due, w)]" .
  have "filter (\<lambda>c. fst c = Flush key) (map (timer_call rt s) (due_timers T s)) =
        map (timer_call rt s) (filter (\<lambda>x. write_key (snd (snd x)) = key) (due_timers T s))"
    by (simp add: filter_map o_def timer_call_def)
  also have "\<dots> = [(Flush key, user_path s, flush_payload (toISOString rt due) w)]"
    by (simp add: d timer_call_def k)
  finally show ?thesis by (simp add: key_flushes_def advance_eq)
qed

lemma rapid_flushes:
  fixes rt :: runtime
  assumes "armed (c @ ''.'' @ d @ ''.'' @ f) (t + writeDebounceMs s)
             \<lparr>w_collection = c, w_docId = d, w_fieldName = f, w_value = v\<rparr> s"
    and "authenticated s"
    and "\<forall>l \<in> set (syncListeners s). \<not> raises l Syncing ''Saving...''"
    and "spaced (writeDebounceMs s) t calls"
    and "fst (last ((t, v) # calls)) + writeDebounceMs s \<le> T"
  shows "key_flushes (c @ ''.'' @ d @ ''.'' @ f) (advance rt T (rapid rt c d f calls s)) =
           key_flushes (c @ ''.'' @ d @ ''.'' @ f) s @
           [(Flush (c @ ''.'' @ d @ ''.'' @ f), user_path s,
             flush_payload (toISOString rt (fst (last ((t, v) # calls)) + writeDebounceMs s))
               \<lparr>w_collection = c, w_docId = d, w_fieldName = f,
                 w_value = snd (last ((t, v) # calls))\<rparr>)]"
  using assms
proof (induction calls arbitrary: s t v)
  case Nil
  from armed_fires [OF Nil.prems(1), of T rt] Nil.prems(5)
  show ?case by simp
next
  case (Cons call calls)
  obtain t' v' where call: "call = (t', v')" by (cases call)
  let ?key = "c @ ''.'' @ d @ ''.'' @ f"
  define s' where "s' = snd (saveFormData rt t' c d f v' (advance rt t' s))"
  from Cons.prems(4) have times: "t \<le> t'" "t' < t + writeDebounceMs s"
    and rest: "spaced (writeDebounceMs s) t' calls"
    by (simp_all add: call)
  have tidy: "tidy ?key t' s"
    by (rule armed_tidy [OF Cons.prems(1) times(2)])
  note step = call_arms [OF Cons.prems(2) Cons.prems(3) tidy, where rt = rt and v = v', folded s'_def]
  have auth': "authenticated s'"
    using Cons.prems(2) by (simp add: authenticated_def step(3))
  have quiet': "\<forall>l \<in> set (syncListeners s'). \<not> raises l Syncing ''Saving...''"
    using Cons.prems(3) by (simp add: step(4))
  have last: "last ((t, v) # call # calls) = last ((t', v') # calls)"
    by (simp add: call)
  have "key_flushes ?key (advance rt T (rapid rt c d f calls s')) =
           key_flushes ?key s' @
           [(Flush ?key, user_path s',
             flush_payload (toISOString rt (fst (last ((t', v') # calls)) + writeDebounceMs s'))
               \<lparr>w_collection = c, w_docId = d, w_fieldName = f,
                 w_value = snd (last ((t', v') # calls))\<rparr>)]"
  proof (rule Cons.IH)
    show "armed ?key (t' + writeDebounceMs s')
       \<lparr>w_collection = c, w_docId = d, w_fieldName = f, w_value = v'\<rparr> s'"
      using step(1) by (simp add: step(5))
    show "authenticated s'" by (rule auth')
    show "\<forall>l \<in> set (syncListeners s'). \<not> raises l Syncing ''Saving...''" by (rule quiet')
    show "spaced (writeDebounceMs s') t' calls" using rest by (simp add: step(5))
    show "fst (last ((t', v') # calls)) + writeDebounceMs s' \<le> T"
      using Cons.prems(5) unfolding last by (simp add: step(5))
  qed
  with step(2) show ?case
    unfolding last
    by (simp add: call s'_def [symmetric] step(5) user_path_cong [OF step(3)])
qed

text \<open>
  Where the condition \<open>tidy\<close> comes from: \<open>recorded\<close> holds of a new
  object and is kept by every call of \<open>saveFormData\<close> and by the passing
  of time, and a recorded table is tidy for every key once time has passed
  up to the moment of the call.
\<close>

lemma recorded_constructor: "recorded constructor"
  by (simp add: recorded_def constructor_def)

lemma recorded_advance: "recorded s \<Longrightarrow> recorded (advance rt t s)"
  by (auto simp: recorded_def advance_eq distinct_map_filter)

lemma timers_after_advance:
  assumes "distinct (map fst (timers s))" and "x \<in> set (timers (advance rt t s))"
  shows "t < fst (snd x)"
proof (rule ccontr)
  assume "\<not> t < fst (snd x)"
  moreover from assms(2) have x: "x \<in> set (timers s)" "fst x \<notin> fst ` set (due_timers t s)"
    by (simp_all add: advance_eq)
  ultimately have "x \<in> set (due_timers t s)" by (simp add: due_timers_def)
  with x(2) show False by blast
qed

lemma recorded_tidy:
  assumes "recorded s"
  shows "tidy key t (advance rt t s)"
proof -
  have r: "recorded (advance rt t s)" by (rule recorded_advance [OF assms])
  have d: "distinct (map fst (timers s))" using assms by (simp add: recorded_def)
  show ?thesis
    unfolding tidy_def
    using r timers_after_advance [OF d] by (auto simp: recorded_def)
qed

lemma saveToLocalStorage_keeps:
  "timers (snd (saveToLocalStorage rt stamp c d f v s)) = timers s"
  "nextTimer (snd (saveToLocalStorage rt stamp c d f v s)) = nextTimer s"
  "pendingWrites (snd (saveToLocalStorage rt stamp c d f v s)) = pendingWrites s"
  by (subst saveToLocalStorage_frame, simp)+

lemma recorded_saveFormData:
  assumes "recorded s"
  shows "recorded (snd (saveFormData rt t c d f v s))"
proof (cases "authenticated s")
  case False
  then show ?thesis
    using assms by (simp add: saveFormData_def recorded_def saveToLocalStorage_keeps)
next
  case True
  show ?thesis
  proof (cases "\<exists>l \<in> set (syncListeners s). raises l Syncing ''Saving...''")
    case True
    with \<open>authenticated s\<close> assms show ?thesis
      by (simp add: saveFormData_def notifySyncListeners_def call_listeners_invoked recorded_def)
  next
    case False
    then have quiet: "\<forall>l \<in> set (syncListeners s). \<not> raises l Syncing ''Saving...''" by simp
    let ?key = "c @ ''.'' @ d @ ''.'' @ f"
    define kept where "kept = (case pendingWrites s ?key of
             Some i \<Rightarrow> filter (\<lambda>x. fst x \<noteq> i) (timers s)
           | None \<Rightarrow> timers s)"
    have kept_sub: "set kept \<subseteq> set (timers s)"
      by (auto simp: kept_def split: option.splits)
    have kept_distinct: "distinct (map fst kept)"
      using assms by (auto simp: kept_def recorded_def distinct_map_filter split: option.splits)
    have kept_below: "\<forall>x \<in> set kept. fst x < nextTimer s"
      using assms kept_sub by (auto simp: recorded_def)
    have kept_key: "write_key (snd (snd x)) \<noteq> ?key" if "x \<in> set kept" for x
    proof
      assume k: "write_key (snd (snd x)) = ?key"
      from that kept_sub have "x \<in> set (timers s)" by auto
      with assms k have "pendingWrites s ?key = Some (fst x)" by (auto simp: recorded_def)
      with that show False by (simp add: kept_def)
    qed
    show ?thesis
      unfolding saveFormData_quiet [OF \<open>authenticated s\<close> quiet] kept_def [symmetric]
      using kept_distinct kept_below kept_key
        assms [unfolded recorded_def, THEN conjunct2, THEN conjunct2] kept_sub
      by (fastforce simp: recorded_def write_key_def)
  qed
qed

lemma recorded_rapid:
  "recorded s \<Longrightarrow> recorded (rapid rt c d f calls s)"
proof (induction calls arbitrary: s)
  case Nil
  then show ?case by simp
next
  case (Cons call calls)
  obtain t v where "call = (t, v)" by (cases call)
  with Cons show ?case
    by (simp add: recorded_saveFormData recorded_advance)
qed

text \<open>
  C3, as stated: every run of calls for one write key, made while authenticated
  and each less than 500 ms after the one before, leads to exactly one remote
  flush. With a listener that raises on the \<open>'syncing'\<close> notification, each
  call ends with the exception before \<open>setTimeout\<close> is reached: no remote
  write is ever sent.
\<close>

theorem C3_no_flush_when_listener_throws:
  "authenticated (addSyncListener (Callback 1 always_throws) signed_in) \<and>
   spaced 500 0 [(100, JStr ''B'')] \<and>
   fst (saveFormData example_runtime 0 ''users'' ''u1'' ''firstName'' (JStr ''A'')
          (addSyncListener (Callback 1 always_throws) signed_in)) = Throw \<and>
   gatewayLog (advance example_runtime 1300
     (rapid example_runtime ''users'' ''u1'' ''firstName'' [(0, JStr ''A''), (100, JStr ''B'')]
        (addSyncListener (Callback 1 always_throws) signed_in))) = []"
  by (simp add: advance_def saveFormData_def addSyncListener_def signed_in_def
      constructor_def notifySyncListeners_def authenticated_def always_throws_def)

lemma one_flush_after_run:
  fixes rt :: runtime
  assumes "authenticated s"
    and "\<forall>l \<in> set (syncListeners s). \<not> raises l Syncing ''Saving...''"
    and "tidy (collection @ ''.'' @ docId @ ''.'' @ fieldName) t s"
    and "spaced (writeDebounceMs s) t calls"
    and "fst (last ((t, val) # calls)) + writeDebounceMs s \<le> T"
  shows "key_flushes (collection @ ''.'' @ docId @ ''.'' @ fieldName)
           (advance rt T (rapid rt collection docId fieldName ((t, val) # calls) s)) =
         key_flushes (collection @ ''.'' @ docId @ ''.'' @ fieldName) s @
           [(Flush (collection @ ''.'' @ docId @ ''.'' @ fieldName), user_path s,
             flush_payload (toISOString rt (fst (last ((t, val) # calls)) + writeDebounceMs s))
               \<lparr>w_collection = collection, w_docId = docId, w_fieldName = fieldName,
                 w_value = snd (last ((t, val) # calls))\<rparr>)]"
proof -
  let ?key = "collection @ ''.'' @ docId @ ''.'' @ fieldName"
  define s' where "s' = snd (saveFormData rt t collection docId fieldName val (advance rt t s))"
  note step = call_arms [OF assms(1) assms(2) assms(3), where rt = rt and v = val, folded s'_def]
  have "key_flushes ?key (advance rt T (rapid rt collection docId fieldName calls s')) =
           key_flushes ?key s' @
           [(Flush ?key, user_path s',
             flush_payload (toISOString rt (fst (last ((t, val) # calls)) + writeDebounceMs s'))
               \<lparr>w_collection = collection, w_docId = docId, w_fieldName = fieldName,
                 w_value = snd (last ((t, val) # calls))\<rparr>)]"
  proof (rule rapid_flushes)
    show "armed ?key (t + writeDebounceMs s')
       \<lparr>w_collection = collection, w_docId = docId, w_fieldName = fieldName, w_value = val\<rparr> s'"
      using step(1) by (simp add: step(5))
    show "authenticated s'" using assms(1) by (simp add: authenticated_def step(3))
    show "\<forall>l \<in> set (syncListeners s'). \<not> raises l Syncing ''Saving...''"
      using assms(2) by (simp add: step(4))
    show "spaced (writeDebounceMs s') t calls" using assms(4) by (simp add: step(5))
    show "fst (last ((t, val) # calls)) + writeDebounceMs s' \<le> T"
      using assms(5) by (simp add: step(5))
  qed
  with step(2) show ?thesis
    by (simp add: s'_def [symmetric] step(5) user_path_cong [OF step(3)])
qed

text \<open>
  C3, amended: for every run of calls \<open>saveFormData(collection, docId, fieldName, value)\<close>
  for one field, all made while authenticated, each no earlier than and less
  than the debounce interval (\<open>writeDebounceMs\<close>, 500 ms) after the one before
  it, where no registered listener throws on the \<open>'syncing'\<close> notification,
  where at the first call a timeout still scheduled for the write key is the
  one recorded in \<open>pendingWrites\<close> and is not yet due, and where nothing but
  the passing of time (the timeouts that fall due) happens between the calls:
  exactly one remote flush is sent for that key, one debounce interval after
  the last call. When the field name is neither \<open>lastUpdated\<close> nor
  \<open>__proto__\<close>, its payload is that field with the value of the last call,
  and the timestamp; the earlier values are never written remotely. When the
  field name is \<open>lastUpdated\<close> or \<open>__proto__\<close>, the payload is the
  timestamp alone and carries no value of any call.
\<close>

theorem C3_one_flush_last_value:
  fixes rt :: runtime
  assumes "authenticated s"
    and "\<forall>l \<in> set (syncListeners s). \<not> raises l Syncing ''Saving...''"
    and "tidy (collection @ ''.'' @ docId @ ''.'' @ fieldName) t s"
    and "spaced (writeDebounceMs s) t calls"
    and "fst (last ((t, val) # calls)) + writeDebounceMs s \<le> T"
  shows "key_flushes (collection @ ''.'' @ docId @ ''.'' @ fieldName)
           (advance rt T (rapid rt collection docId fieldName ((t, val) # calls) s)) =
         key_flushes (collection @ ''.'' @ docId @ ''.'' @ fieldName) s @
           [(Flush (collection @ ''.'' @ docId @ ''.'' @ fieldName), user_path s,
             flush_payload (toISOString rt (fst (last ((t, val) # calls)) + writeDebounceMs s))
               \<lparr>w_collection = collection, w_docId = docId, w_fieldName = fieldName,
                 w_value = snd (last ((t, val) # calls))\<rparr>)] \<and>
         (fieldName \<noteq> ''lastUpdated'' \<and> fieldName \<noteq> ''__proto__'' \<longrightarrow>
            flush_payload (toISOString rt (fst (last ((t, val) # calls)) + writeDebounceMs s))
               \<lparr>w_collection = collection, w_docId = docId, w_fieldName = fieldName,
                 w_value = snd (last ((t, val) # calls))\<rparr> =
            [(fieldName, snd (last ((t, val) # calls))),
             (''lastUpdated'',
              JStr (toISOString rt (fst (last ((t, val) # calls)) + writeDebounceMs s)))]) \<and>
         (fieldName = ''lastUpdated'' \<or> fieldName = ''__proto__'' \<longrightarrow>
            flush_payload (toISOString rt (fst (last ((t, val) # calls)) + writeDebounceMs s))
               \<lparr>w_collection = collection, w_docId = docId, w_fieldName = fieldName,
                 w_value = snd (last ((t, val) # calls))\<rparr> =
            [(''lastUpdated'',
              JStr (toISOString rt (fst (last ((t, val) # calls)) + writeDebounceMs s)))])"
proof -
  have payload: "flush_payload stamp
      \<lparr>w_collection = collection, w_docId = docId, w_fieldName = fieldName, w_value = v\<rparr> =
      (if fieldName = ''lastUpdated'' \<or> fieldName = ''__proto__''
       then [(''lastUpdated'', JStr stamp)]
       else [(fieldName, v), (''lastUpdated'', JStr stamp)])" for stamp v
    by (auto simp: flush_payload_def set_property_def)
  show ?thesis
    using one_flush_after_run [OF assms]
    by (simp add: payload)
qed

lemma two_pending_eq:
  "two_pending =
     signed_in\<lparr>syncStatus := Syncing,
       syncListeners := [Callback 1 never_throws],
       listenerLog := [(1, Syncing, ''Saving...''), (1, Syncing, ''Saving...'')],
       timers := [(0, 500, \<lparr>w_collection = ''users'', w_docId = ''u1'', w_fieldName = ''lastName'', w_value = JStr ''L''\<rparr>),
                  (1, 600, \<lparr>w_collection = ''users'', w_docId = ''u1'', w_fieldName = ''firstName'', w_value = JStr ''A''\<rparr>)],
       nextTimer := 2,
       pendingWrites := [''users.u1.lastName'' \<mapsto> 0, ''users.u1.firstName'' \<mapsto> 1]\<rparr>"
  by (simp add: two_pending_def advance_def saveFormData_def addSyncListener_def signed_in_def
      constructor_def notifySyncListeners_def authenticated_def setTimeout_def write_key_def
      never_throws_def)

theorem C3_one_flush_last_value_witness:
  "authenticated two_pending \<and>
   tidy ''users.u1.firstName'' 200 two_pending \<and>
   spaced (writeDebounceMs two_pending) 200 [(450, JStr ''Ana''), (900, JStr ''Anab'')] \<and>
   key_flushes ''users.u1.firstName''
     (advance example_runtime 1400
        (rapid example_runtime ''users'' ''u1'' ''firstName''
           [(200, JStr ''An''), (450, JStr ''Ana''), (900, JStr ''Anab'')] two_pending)) =
     [(Flush ''users.u1.firstName'', ''users/u1'',
       [(''firstName'', JStr ''Anab''), (''lastUpdated'', JStr ''2024-01-01T00:00:00.000Z'')])]"
proof -
  have h1: "authenticated two_pending"
    by (simp add: two_pending_eq authenticated_def signed_in_def constructor_def)
  have h2: "\<forall>l \<in> set (syncListeners two_pending). \<not> raises l Syncing ''Saving...''"
    by (simp add: two_pending_eq never_throws_def)
  have h3: "tidy (''users'' @ ''.'' @ ''u1'' @ ''.'' @ ''firstName'') 200 two_pending"
    by (simp add: two_pending_eq tidy_def write_key_def)
  have h4: "spaced (writeDebounceMs two_pending) 200 [(450, JStr ''Ana''), (900, JStr ''Anab'')]"
    by (simp add: two_pending_eq signed_in_def constructor_def)
  have h5: "fst (last ((200, JStr ''An'') # [(450, JStr ''Ana''), (900, JStr ''Anab'')])) +
              writeDebounceMs two_pending \<le> 1400"
    by (simp add: two_pending_eq signed_in_def constructor_def)
  have none: "key_flushes ''users.u1.firstName'' two_pending = []"
    by (simp add: two_pending_eq key_flushes_def signed_in_def constructor_def)
  have path: "user_path two_pending = ''users/u1''"
    by (simp add: two_pending_eq user_path_def signed_in_def constructor_def)
  show ?thesis
    using h1 h3 h4 C3_one_flush_last_value [OF h1 h2 h3 h4 h5, where rt = example_runtime]
    by (simp add: none path flush_payload_def set_property_def example_runtime_def example_clock_def)
qed

text \<open>
  The amended statement leaves out what happens when an awaited remote write
  of the same key settles between two calls. The callback then runs
  \<open>pendingWrites.delete(key)\<close>, which forgets the timeout of the call made
  in between; the next call cannot cancel it, and both run. Here the calls at
  600 and 800 are 200 ms apart, and the values B and C are both written.
\<close>

lemma debounce_race_sends_stale_value:
  "spaced 500 600 [(800, JStr ''C'')] \<and>
   map (\<lambda>c. snd (snd c)) (gatewayLog (advance example_runtime 1300
     (rapid example_runtime ''users'' ''u1'' ''firstName'' [(800, JStr ''C'')]
        (snd (settle example_runtime 700 0 True
           (rapid example_runtime ''users'' ''u1'' ''firstName'' [(600, JStr ''B'')]
              (advance example_runtime 500
                 (rapid example_runtime ''users'' ''u1'' ''firstName'' [(0, JStr ''A'')] signed_in)))))))) =
   [[(''firstName'', JStr ''A''), (''lastUpdated'', JStr ''2024-01-01T00:00:00.000Z'')],
    [(''firstName'', JStr ''B''), (''lastUpdated'', JStr ''2024-01-01T00:00:00.000Z'')],
    [(''firstName'', JStr ''C''), (''lastUpdated'', JStr ''2024-01-01T00:00:00.000Z'')]]"
  by (simp add: advance_def saveFormData_def settle_def flush_end_def signed_in_def
      constructor_def notifySyncListeners_def authenticated_def setTimeout_def clearTimeout_def
      write_key_def user_path_def flush_payload_def set_property_def example_runtime_def
      example_clock_def Let_def)

end
